theory Spec2Isabelle
  imports Complex_Main
begin

section \<open>Exceptions and name resolution\<close>

text \<open>
  The module \<^verbatim>\<open>pcsftools.py\<close> is modelled function by function. An exception that leaves
  a function is a value \<open>Inl e\<close> of the result type; a returned value is \<open>Inr v\<close>.
  A float is modelled by the rational number it holds. Comparisons of floats are exact;
  the one float product the module computes itself, the number of samples, is rounded as
  binary64 arithmetic rounds it. Edge costs and their sums are kept exact. \<^verbatim>\<open>assert\<close> statements are modelled as executed (the interpreter is not run
  with optimisation switched on). The model covers the bodies of the functions; the
  annotations of their parameters are not evaluated.
\<close>

datatype error =
    NameError string
  | ZeroDivisionError
  | AssertionError
  | KeyError
  | ValueError
  | OverflowError
  | NetworkXNoPath
  | NodeNotFound

text \<open>
  The global names the module binds: five imported modules, one imported class and its
  eight functions. A name used in a function body that is neither a local variable nor one
  of these (nor a builtin) raises \<^verbatim>\<open>NameError\<close> when it is evaluated.
\<close>

datatype pyobj = Module string | Class string | Function string

definition module_globals :: "(string \<times> pyobj) list" where
  "module_globals =
     [(''pd'', Module ''pandas''),
      (''itertools'', Module ''itertools''),
      (''nx'', Module ''networkx''),
      (''graph'', Module ''graph''),
      (''random'', Module ''random''),
      (''datetime'', Class ''datetime''),
      (''run_pcsf'', Function ''run_pcsf''),
      (''_get_similarity'', Function ''_get_similarity''),
      (''get_path_costs'', Function ''get_path_costs''),
      (''convert_to_gene_symbol'', Function ''convert_to_gene_symbol''),
      (''convert_to_string_id'', Function ''convert_to_string_id''),
      (''get_network_details'', Function ''get_network_details''),
      (''get_graph_edit_distance'', Function ''get_graph_edit_distance''),
      (''make_solution_similarity_matrix'', Function ''make_solution_similarity_matrix'')]"

definition resolve :: "string \<Rightarrow> error + pyobj" where
  "resolve name =
     (case map_of module_globals name of
        None \<Rightarrow> Inl (NameError name)
      | Some obj \<Rightarrow> Inr obj)"

section \<open>Set-overlap similarity\<close>

text \<open>
  \<^verbatim>\<open>return len(set(a).intersection(set(b))) / len(set(a).union(set(b)))\<close>

  Both lengths are Python integers and \<^verbatim>\<open>/\<close> is true division, which raises
  \<^verbatim>\<open>ZeroDivisionError\<close> when the divisor is zero. The function \<^verbatim>\<open>_get_similarity\<close>
  is named \<open>get_similarity\<close> here.
\<close>

definition true_div :: "nat \<Rightarrow> nat \<Rightarrow> error + rat" where
  "true_div m n = (if n = 0 then Inl ZeroDivisionError else Inr (of_nat m / of_nat n))"

definition get_similarity :: "'a list \<Rightarrow> 'a list \<Rightarrow> error + rat" where
  "get_similarity a b = true_div (card (set a \<inter> set b)) (card (set a \<union> set b))"

section \<open>ID mapper\<close>

text \<open>
  The mapping file is read into a table with the columns \<^verbatim>\<open>STRING\<close> and
  \<^verbatim>\<open>display name\<close>; a row of the table is a pair of the two cells. Parsing the file is
  the table library's work and is not modelled: the functions take the rows.

  \<^verbatim>\<open>dict(zip(keys, values))\<close> stores the pairs in row order, so a later row replaces an
  earlier one with the same key.
\<close>

type_synonym id_map_rows = "(string \<times> string) list"

fun dict_zip :: "'k list \<Rightarrow> 'v list \<Rightarrow> ('k \<rightharpoonup> 'v) \<Rightarrow> ('k \<rightharpoonup> 'v)" where
  "dict_zip (k # ks) (v # vs) d = dict_zip ks vs (d(k \<mapsto> v))"
| "dict_zip _ _ d = d"

text \<open>
  The loop \<^verbatim>\<open>for s in ids: try: out.append(d[s]) except KeyError: out.append(s)\<close>,
  with the output list as an accumulator.
\<close>

fun translate_ids :: "(string \<rightharpoonup> string) \<Rightarrow> string list \<Rightarrow> string list \<Rightarrow> string list" where
  "translate_ids d [] out = out"
| "translate_ids d (s # ss) out =
     (case d s of
        Some v \<Rightarrow> translate_ids d ss (out @ [v])
      | None \<Rightarrow> translate_ids d ss (out @ [s]))"

definition string2gene :: "id_map_rows \<Rightarrow> (string \<rightharpoonup> string)" where
  "string2gene tmp = dict_zip (map fst tmp) (map snd tmp) Map.empty"

definition gene2string :: "id_map_rows \<Rightarrow> (string \<rightharpoonup> string)" where
  "gene2string tmp = dict_zip (map snd tmp) (map fst tmp) Map.empty"

definition convert_to_gene_symbol :: "string list \<Rightarrow> id_map_rows \<Rightarrow> string list" where
  "convert_to_gene_symbol string_ids tmp = translate_ids (string2gene tmp) string_ids []"

definition convert_to_string_id :: "string list \<Rightarrow> id_map_rows \<Rightarrow> string list" where
  "convert_to_string_id genes tmp = translate_ids (gene2string tmp) genes []"

section \<open>Solution comparator\<close>

text \<open>
  A dictionary of named solutions is the list of its items in insertion order (the keys
  are distinct). \<^verbatim>\<open>itertools.product(keys, keys)\<close> lists every ordered pair of keys, the
  first component varying slowest.
\<close>

definition getitem :: "('k \<times> 'v) list \<Rightarrow> 'k \<Rightarrow> error + 'v" where
  "getitem d k = (case map_of d k of None \<Rightarrow> Inl KeyError | Some v \<Rightarrow> Inr v)"

text \<open>
  The loop \<^verbatim>\<open>for k1, k2 in combs: sim_mat.append([k1, k2, _get_similarity(G1, G2)])\<close>.
\<close>

fun sim_rows ::
  "('k \<times> 'a list) list \<Rightarrow> ('k \<times> 'k) list \<Rightarrow> ('k \<times> 'k \<times> rat) list \<Rightarrow> error + ('k \<times> 'k \<times> rat) list"
where
  "sim_rows res_dict [] sim_mat = Inr sim_mat"
| "sim_rows res_dict ((k1, k2) # combs) sim_mat =
     (case getitem res_dict k1 of
        Inl e \<Rightarrow> Inl e
      | Inr G1 \<Rightarrow>
     (case getitem res_dict k2 of
        Inl e \<Rightarrow> Inl e
      | Inr G2 \<Rightarrow>
     (case get_similarity G1 G2 of
        Inl e \<Rightarrow> Inl e
      | Inr m \<Rightarrow> sim_rows res_dict combs (sim_mat @ [(k1, k2, m)]))))"

text \<open>
  The pivoted table: its row labels, its column labels and the cell of each pair of labels.
  The table library refuses to pivot rows that repeat a (row label, column label) pair.
\<close>

record 'k pivot_table =
  pt_index :: "'k set"
  pt_columns :: "'k set"
  pt_cell :: "'k \<times> 'k \<rightharpoonup> rat"

definition pivot :: "('k \<times> 'k \<times> rat) list \<Rightarrow> error + 'k pivot_table" where
  "pivot rows =
     (if distinct (map (\<lambda>(k1, k2, m). (k1, k2)) rows)
      then Inr \<lparr> pt_index = set (map fst rows),
                 pt_columns = set (map (\<lambda>(k1, k2, m). k2) rows),
                 pt_cell = map_of (map (\<lambda>(k1, k2, m). ((k1, k2), m)) rows) \<rparr>
      else Inl ValueError)"

text \<open>
  The value the local variable \<^verbatim>\<open>sim_mat\<close> holds when the \<^verbatim>\<open>return\<close> statement is
  reached.
\<close>

definition sim_mat_local :: "('k \<times> 'a list) list \<Rightarrow> error + 'k pivot_table" where
  "sim_mat_local res_dict =
     (case sim_rows res_dict (List.product (map fst res_dict) (map fst res_dict)) [] of
        Inl e \<Rightarrow> Inl e
      | Inr sim_mat \<Rightarrow> pivot sim_mat)"

text \<open>
  The function ends with \<^verbatim>\<open>return simMat\<close>. The function assigns \<^verbatim>\<open>sim_mat\<close> only, so
  \<^verbatim>\<open>simMat\<close> is looked up among the global names, and what would be returned is the
  object bound to that name.
\<close>

definition make_solution_similarity_matrix :: "('k \<times> 'a list) list \<Rightarrow> error + pyobj" where
  "make_solution_similarity_matrix res_dict =
     (case sim_mat_local res_dict of
        Inl e \<Rightarrow> Inl e
      | Inr sim_mat \<Rightarrow> resolve ''simMat'')"

section \<open>Graphs\<close>

text \<open>
  A graph of the graph library, as far as the module uses it: the nodes in insertion
  order, the attribute dictionary of each node, and the undirected edges with their
  attribute dictionaries.
\<close>

record ('n, 'v) graph =
  g_nodes :: "'n list"
  g_node_attr :: "'n \<Rightarrow> (string \<rightharpoonup> 'v)"
  g_edges :: "('n \<times> 'n \<times> (string \<times> rat) list) list"

text \<open>
  \<^verbatim>\<open>nx.get_node_attributes(G, a)\<close>: the dictionary from each node that has the attribute
  to its value, in node order.
\<close>

definition get_node_attributes :: "('n, 'v) graph \<Rightarrow> string \<Rightarrow> ('n \<times> 'v) list" where
  "get_node_attributes G a =
     concat (map (\<lambda>n. case g_node_attr G n a of None \<Rightarrow> [] | Some v \<Rightarrow> [(n, v)]) (g_nodes G))"

text \<open>
  \<^verbatim>\<open>nx.set_node_attributes(G, values)\<close> with a dictionary from nodes to attribute
  dictionaries: each node of the dictionary that is in the graph has its attributes updated.
\<close>

fun update_attrs :: "(string \<rightharpoonup> 'v) \<Rightarrow> (string \<times> 'v) list \<Rightarrow> (string \<rightharpoonup> 'v)" where
  "update_attrs d [] = d"
| "update_attrs d ((k, v) # kvs) = update_attrs (d(k \<mapsto> v)) kvs"

fun set_node_attributes ::
  "('n, 'v) graph \<Rightarrow> ('n \<times> (string \<times> 'v) list) list \<Rightarrow> ('n, 'v) graph"
where
  "set_node_attributes G [] = G"
| "set_node_attributes G ((n, d) # vals) =
     (if n \<in> set (g_nodes G)
      then set_node_attributes
             (G\<lparr> g_node_attr := (g_node_attr G)(n := update_attrs (g_node_attr G n) d) \<rparr>) vals
      else set_node_attributes G vals)"

section \<open>Network summarizer\<close>

text \<open>
  A table with a row index and named columns. Assigning a column replaces the column of
  that name or appends a new one; the table library raises \<^verbatim>\<open>ValueError\<close> when the
  number of values differs from the number of rows.
\<close>

record ('n, 'v) dataframe =
  df_index :: "'n list"
  df_columns :: "(string \<times> 'v list) list"

fun put_column :: "string \<Rightarrow> 'v list \<Rightarrow> (string \<times> 'v list) list \<Rightarrow> (string \<times> 'v list) list" where
  "put_column a vals [] = [(a, vals)]"
| "put_column a vals ((b, old) # cols) =
     (if a = b then (b, vals) # cols else (b, old) # put_column a vals cols)"

definition setitem :: "('n, 'v) dataframe \<Rightarrow> string \<Rightarrow> 'v list \<Rightarrow> error + ('n, 'v) dataframe" where
  "setitem df a vals =
     (if length vals = length (df_index df)
      then Inr (df\<lparr> df_columns := put_column a vals (df_columns df) \<rparr>)
      else Inl ValueError)"

text \<open>
  \<^verbatim>\<open>for a in atts: att_df[a] = nx.get_node_attributes(G, a).values()\<close>
\<close>

fun add_columns ::
  "('n, 'v) graph \<Rightarrow> string list \<Rightarrow> ('n, 'v) dataframe \<Rightarrow> error + ('n, 'v) dataframe"
where
  "add_columns G [] att_df = Inr att_df"
| "add_columns G (a # atts) att_df =
     (case setitem att_df a (map snd (get_node_attributes G a)) of
        Inl e \<Rightarrow> Inl e
      | Inr att_df' \<Rightarrow> add_columns G atts att_df')"

text \<open>
  \<^verbatim>\<open>sort_values(label, ascending=False)\<close>: the rows reordered by the values of one column,
  largest first; a label that is not a column raises \<^verbatim>\<open>KeyError\<close>.
\<close>

definition sort_values_descending ::
  "('n, 'v::linorder) dataframe \<Rightarrow> string option \<Rightarrow> error + ('n, 'v) dataframe"
where
  "sort_values_descending df label =
     (case label of
        None \<Rightarrow> Inl KeyError
      | Some a \<Rightarrow>
          (case map_of (df_columns df) a of
             None \<Rightarrow> Inl KeyError
           | Some col \<Rightarrow>
               (let order = rev (sort_key (\<lambda>i. col ! i) (rev [0 ..< length (df_index df)]))
                in Inr \<lparr> df_index = map (\<lambda>i. df_index df ! i) order,
                          df_columns = map (\<lambda>(b, vals). (b, map (\<lambda>i. vals ! i) order))
                                         (df_columns df) \<rparr>)))"

text \<open>
  Column labels are strings, and the objects bound to the module's global names are
  modules, a class and functions, none of which is a column label.
\<close>

definition label_of :: "pyobj \<Rightarrow> string option" where
  "label_of obj = None"

text \<open>
  The parameter \<^verbatim>\<open>sort_by\<close> is \<^verbatim>\<open>False\<close> by default (here \<open>None\<close>) or an attribute
  name; the empty string is false in a condition, as \<^verbatim>\<open>False\<close> is.
\<close>

definition truthy :: "string option \<Rightarrow> bool" where
  "truthy sort_by = (case sort_by of None \<Rightarrow> False | Some a \<Rightarrow> a \<noteq> [])"

text \<open>
  The sorting branch reads
  \<^verbatim>\<open>assert sort_by in att_df.columns; return att_df.sort_values(sortBy, ascending=False)\<close>:
  the assertion tests the parameter \<^verbatim>\<open>sort_by\<close>, the call names \<^verbatim>\<open>sortBy\<close>, which is
  not a local variable of the function.
\<close>

definition get_network_details ::
  "('n, 'v::linorder) graph \<Rightarrow> string list \<Rightarrow> string option \<Rightarrow> error + ('n, 'v) dataframe"
where
  "get_network_details G atts sort_by =
     (case add_columns G atts \<lparr> df_index = g_nodes G, df_columns = [] \<rparr> of
        Inl e \<Rightarrow> Inl e
      | Inr att_df \<Rightarrow>
          if truthy sort_by then
            (if the sort_by \<notin> set (map fst (df_columns att_df)) then Inl AssertionError
             else (case resolve ''sortBy'' of
                     Inl e \<Rightarrow> Inl e
                   | Inr obj \<Rightarrow> sort_values_descending att_df (label_of obj)))
          else Inr att_df)"

section \<open>PCSF driver\<close>

text \<open>
  The solver package and the graph algorithms are external. They enter the model as
  parameters: each may return a value or raise. Node attributes are numbers or strings.
\<close>

datatype attr_value = Num rat | Str string

record ('ppi, 'params, 'prizes, 'g, 'sol, 'n) collaborators =
  Graph :: "'ppi \<Rightarrow> 'params \<Rightarrow> error + 'g"
  prepare_prizes :: "'g \<Rightarrow> 'prizes \<Rightarrow> error + 'g"
  pcsf :: "'g \<Rightarrow> error + 'sol"
  output_forest_as_networkx ::
    "'g \<Rightarrow> 'sol \<Rightarrow> error + (('n, attr_value) graph \<times> ('n, attr_value) graph)"
  betweenness_centrality :: "('n, attr_value) graph \<Rightarrow> error + ('n \<times> rat) list"
  eigenvector_centrality :: "('n, attr_value) graph \<Rightarrow> error + ('n \<times> rat) list"
  degree_centrality :: "('n, attr_value) graph \<Rightarrow> error + ('n \<times> rat) list"
  best_partition :: "('n, attr_value) graph \<Rightarrow> error + ('n \<times> nat) list"

text \<open>\<^verbatim>\<open>str\<close> of a community label, a natural number: its decimal digits.\<close>

definition digit_char :: "nat \<Rightarrow> char" where
  "digit_char d = char_of (48 + d)"

function str_nat :: "nat \<Rightarrow> string" where
  "str_nat n = (if n < 10 then [digit_char n] else str_nat (n div 10) @ [digit_char (n mod 10)])"
  by pat_completeness auto
termination
  by (relation "measure id") auto

text \<open>
  The block under \<^verbatim>\<open>if add_attribs:\<close>. Each of the four statements computes a metric over
  the forest and stores it under its attribute name. The fourth reads
  \<^verbatim>\<open>community.best_partition(resultForest)\<close>, and \<^verbatim>\<open>community\<close> is looked up among the
  global names; were it bound, the community detection would run.
\<close>

definition add_attributes ::
  "('ppi, 'params, 'prizes, 'g, 'sol, 'n) collaborators \<Rightarrow> ('n, attr_value) graph
     \<Rightarrow> error + ('n, attr_value) graph"
where
  "add_attributes env resultForest =
     (case betweenness_centrality env resultForest of
        Inl e \<Rightarrow> Inl e
      | Inr bc \<Rightarrow>
     (let F1 = set_node_attributes resultForest
                 (map (\<lambda>(node, b_centrality). (node, [(''b_centrality'', Num b_centrality)])) bc)
      in case eigenvector_centrality env F1 of
        Inl e \<Rightarrow> Inl e
      | Inr ec \<Rightarrow>
     (let F2 = set_node_attributes F1
                 (map (\<lambda>(node, ev_centrality). (node, [(''ev_centrality'', Num ev_centrality)])) ec)
      in case degree_centrality env F2 of
        Inl e \<Rightarrow> Inl e
      | Inr dc \<Rightarrow>
     (let F3 = set_node_attributes F2
                 (map (\<lambda>(node, deg_centrality). (node, [(''deg_centrality'', Num deg_centrality)])) dc)
      in case resolve ''community'' of
        Inl e \<Rightarrow> Inl e
      | Inr community \<Rightarrow>
     (case best_partition env F3 of
        Inl e \<Rightarrow> Inl e
      | Inr part \<Rightarrow>
          Inr (set_node_attributes F3
                 (map (\<lambda>(node, cluster). (node, [(''louvain_clusters'', Str (str_nat cluster))]))
                    part)))))))"

text \<open>
  \<^verbatim>\<open>run_pcsf\<close> returns the lines it printed and either the forest or the exception that
  left it. The clock reading printed when \<^verbatim>\<open>time\<close> is set is the parameter \<open>now\<close>.
\<close>

definition run_pcsf ::
  "('ppi, 'params, 'prizes, 'g, 'sol, 'n) collaborators \<Rightarrow> string
     \<Rightarrow> 'prizes \<Rightarrow> 'ppi \<Rightarrow> 'params \<Rightarrow> bool \<Rightarrow> bool
     \<Rightarrow> string list \<times> (error + ('n, attr_value) graph)"
where
  "run_pcsf env now prizes ppi params time add_attribs =
     (if time then [''Current Time = '' @ now] else [],
      case Graph env ppi params of
        Inl e \<Rightarrow> Inl e
      | Inr pcsfGraph \<Rightarrow>
     (case prepare_prizes env pcsfGraph prizes of
        Inl e \<Rightarrow> Inl e
      | Inr pcsfGraph' \<Rightarrow>
     (case pcsf env pcsfGraph' of
        Inl e \<Rightarrow> Inl e
      | Inr sol \<Rightarrow>
     (case output_forest_as_networkx env pcsfGraph' sol of
        Inl e \<Rightarrow> Inl e
      | Inr (resultForest, augmented) \<Rightarrow>
          if add_attribs then add_attributes env resultForest else Inr resultForest))))"

section \<open>Path cost sampler\<close>

text \<open>
  The adjacency table: the labels of its first three columns and its rows. The first two
  cells of a row are the end points of an edge, the third its cost.
\<close>

record 'n adj_table =
  col_source :: string
  col_target :: string
  col_cost :: string
  adj_rows :: "('n \<times> 'n \<times> rat) list"

text \<open>
  \<^verbatim>\<open>nx.from_pandas_edgelist(adj_list, source=columns[0], target=columns[1],
  edge_attr=columns[2])\<close> builds an undirected graph row by row: the end points become nodes
  when they are new, and the edge carries one attribute, named by the label of the third
  column. A row that repeats an edge (in either direction) updates its attributes.
\<close>

definition add_node :: "'n \<Rightarrow> 'n list \<Rightarrow> 'n list" where
  "add_node n ns = (if n \<in> set ns then ns else ns @ [n])"

definition dict_update :: "(string \<times> rat) list \<Rightarrow> (string \<times> rat) list \<Rightarrow> (string \<times> rat) list" where
  "dict_update old new = new @ filter (\<lambda>kv. fst kv \<notin> set (map fst new)) old"

fun add_edge ::
  "'n \<Rightarrow> 'n \<Rightarrow> (string \<times> rat) list \<Rightarrow> ('n \<times> 'n \<times> (string \<times> rat) list) list
     \<Rightarrow> ('n \<times> 'n \<times> (string \<times> rat) list) list"
where
  "add_edge u v d [] = [(u, v, d)]"
| "add_edge u v d ((a, b, d0) # es) =
     (if (a = u \<and> b = v) \<or> (a = v \<and> b = u) then (a, b, dict_update d0 d) # es
      else (a, b, d0) # add_edge u v d es)"

fun add_rows :: "string \<Rightarrow> ('n \<times> 'n \<times> rat) list \<Rightarrow> ('n, 'v) graph \<Rightarrow> ('n, 'v) graph" where
  "add_rows attr [] G = G"
| "add_rows attr ((u, v, w) # rows) G =
     add_rows attr rows
       (G\<lparr> g_nodes := add_node v (add_node u (g_nodes G)),
            g_edges := add_edge u v [(attr, w)] (g_edges G) \<rparr>)"

definition from_pandas_edgelist :: "'n adj_table \<Rightarrow> ('n, 'v) graph" where
  "from_pandas_edgelist adj_list =
     add_rows (col_cost adj_list) (adj_rows adj_list)
       \<lparr> g_nodes = [], g_node_attr = (\<lambda>n. Map.empty), g_edges = [] \<rparr>"

text \<open>
  \<^verbatim>\<open>itertools.combinations(seeds, 2)\<close>: the pairs of two positions of the list, the earlier
  position first, in lexicographic order of the positions.
\<close>

fun combinations2 :: "'a list \<Rightarrow> ('a \<times> 'a) list" where
  "combinations2 [] = []"
| "combinations2 (x # xs) = map (Pair x) xs @ combinations2 xs"

text \<open>\<^verbatim>\<open>int(x)\<close> truncates towards zero.\<close>

definition py_int :: "rat \<Rightarrow> int" where
  "py_int x = (if 0 \<le> x then \<lfloor>x\<rfloor> else \<lceil>x\<rceil>)"

text \<open>
  Binary64 rounding to the nearest float, ties to the even significand. A positive value
  is scaled by powers of two until it lies in the range of 53-bit significands (the
  exponent stops at the smallest one, -1074, where the subnormal numbers lie), rounded to
  an integer there, and scaled back.
\<close>

definition round_half_even :: "rat \<Rightarrow> int" where
  "round_half_even y =
     (let f = \<lfloor>y\<rfloor>; d = y - of_int f
      in if d < 1 / 2 then f
         else if 1 / 2 < d then f + 1
         else if even f then f else f + 1)"

function scale_down :: "rat \<Rightarrow> int \<Rightarrow> rat \<times> int" where
  "scale_down y e = (if 2 ^ 53 \<le> y then scale_down (y / 2) (e + 1) else (y, e))"
  by pat_completeness auto
termination
proof (relation "measure (\<lambda>(y, e). nat \<lfloor>y\<rfloor>)")
  show "wf (measure (\<lambda>(y, e). nat \<lfloor>y\<rfloor>))" by simp
next
  fix y :: rat and e :: int
  assume big: "2 ^ 53 \<le> y"
  have "(2::rat) \<le> 2 ^ 53" by simp
  from this big have y2: "2 \<le> y" by (rule order_trans)
  then have "y / 2 + 1 \<le> y" by simp
  then have "\<lfloor>y / 2 + 1\<rfloor> \<le> \<lfloor>y\<rfloor>" by (rule floor_mono)
  then have less: "\<lfloor>y / 2\<rfloor> < \<lfloor>y\<rfloor>" by simp
  from y2 have "\<lfloor>2::rat\<rfloor> \<le> \<lfloor>y\<rfloor>" by (rule floor_mono)
  then have "0 < \<lfloor>y\<rfloor>" by simp
  with less show "((y / 2, e + 1), (y, e)) \<in> measure (\<lambda>(y, e). nat \<lfloor>y\<rfloor>)"
    by simp
qed

function scale_up :: "rat \<Rightarrow> int \<Rightarrow> rat \<times> int" where
  "scale_up y e = (if y < 2 ^ 52 \<and> - 1074 < e then scale_up (y * 2) (e - 1) else (y, e))"
  by pat_completeness auto
termination
  by (relation "measure (\<lambda>(y, e). nat (e + 1074))") auto

declare scale_down.simps [simp del]

declare scale_up.simps [simp del]

definition pow2 :: "int \<Rightarrow> rat" where
  "pow2 e = (if 0 \<le> e then 2 ^ nat e else 1 / 2 ^ nat (- e))"

definition round_positive :: "rat \<Rightarrow> rat" where
  "round_positive x =
     (case scale_up x 0 of (y, e) \<Rightarrow>
        (case scale_down y e of (y', e') \<Rightarrow> of_int (round_half_even y') * pow2 e'))"

definition round_binary64 :: "rat \<Rightarrow> rat" where
  "round_binary64 x = (if x < 0 then - round_positive (- x) else round_positive x)"

text \<open>
  \<^verbatim>\<open>len(combs) * sampled_proportion\<close> with a float proportion: the length is converted to
  a float, which raises \<^verbatim>\<open>OverflowError\<close> when it is beyond the largest float, and
  the product of the two floats is rounded. \<^verbatim>\<open>samples\<close> is \<^verbatim>\<open>int\<close> of that product.
\<close>

definition float_of_nat :: "nat \<Rightarrow> error + rat" where
  "float_of_nat n =
     (let x = round_binary64 (of_nat n)
      in if 2 ^ 1024 \<le> x then Inl OverflowError else Inr x)"

definition sample_count :: "nat \<Rightarrow> rat \<Rightarrow> error + nat" where
  "sample_count n sampled_proportion =
     (case float_of_nat n of
        Inl e \<Rightarrow> Inl e
      | Inr x \<Rightarrow> Inr (nat (py_int (round_binary64 (x * sampled_proportion)))))"

text \<open>
  What the function does to the world outside, in order: the lines it prints, the graph it
  builds, the random numbers it draws and the shortest-path queries it makes.
\<close>

datatype 'n event =
    Print string
  | Progress rat
  | BuildGraph
  | RandRange nat
  | PathQuery 'n 'n

fun queries :: "'n event list \<Rightarrow> ('n \<times> 'n) list" where
  "queries [] = []"
| "queries (PathQuery h d # evs) = (h, d) # queries evs"
| "queries (_ # evs) = queries evs"

text \<open>
  The loop \<^verbatim>\<open>for i in range(samples)\<close>; \<open>n\<close> counts the iterations left and \<open>i\<close> is the
  loop variable. The random source is a sequence of numbers, one per iteration;
  \<^verbatim>\<open>random.randrange(len(combs))\<close> is the \<open>i\<close>-th of them reduced below the length, and
  raises \<^verbatim>\<open>ValueError\<close> on an empty range. \<open>sp\<close> is the shortest-path query on the graph.

  When the query raises, the clause \<^verbatim>\<open>except NetworkXNoPath:\<close> first evaluates the name
  \<^verbatim>\<open>NetworkXNoPath\<close>, which is looked up among the global names. Were it bound to the
  library's exception, a no-path failure would be skipped (\<^verbatim>\<open>continue\<close>) and any other
  exception would propagate.
\<close>

fun path_loop ::
  "(nat \<Rightarrow> nat) \<Rightarrow> bool \<Rightarrow> nat \<Rightarrow> ('n \<Rightarrow> 'n \<Rightarrow> error + rat) \<Rightarrow> nat \<Rightarrow> nat
     \<Rightarrow> ('n \<times> 'n) list \<Rightarrow> ('n \<times> 'n \<rightharpoonup> rat) \<Rightarrow> 'n event list
     \<Rightarrow> 'n event list \<times> (error + ('n \<times> 'n \<rightharpoonup> rat))"
where
  "path_loop rnd print_prog samples sp 0 i combs path_costs tr = (tr, Inr path_costs)"
| "path_loop rnd print_prog samples sp (Suc n) i combs path_costs tr =
     (let tr1 = (if print_prog then tr @ [Progress (100 * of_nat i / of_nat samples)] else tr);
          tr2 = tr1 @ [RandRange (length combs)]
      in if combs = [] then (tr2, Inl ValueError)
         else
           (let k = rnd i mod length combs;
                home = fst (combs ! k);
                dest = snd (combs ! k);
                combs' = take k combs @ drop (Suc k) combs;
                tr3 = tr2 @ [PathQuery home dest]
            in case sp home dest of
                 Inr c \<Rightarrow>
                   path_loop rnd print_prog samples sp n (Suc i) combs'
                     (path_costs((home, dest) \<mapsto> c)) tr3
               | Inl e \<Rightarrow>
                   (case resolve ''NetworkXNoPath'' of
                      Inl name_error \<Rightarrow> (tr3, Inl name_error)
                    | Inr cls \<Rightarrow>
                        if e = NetworkXNoPath
                        then path_loop rnd print_prog samples sp n (Suc i) combs' path_costs tr3
                        else (tr3, Inl e))))"

text \<open>
  \<^verbatim>\<open>get_path_costs\<close>, given the library's shortest-path function \<open>spl\<close> (graph, source,
  target, name of the weight attribute) and the random source. It returns the events and
  either an exception or the returned value, which is \<^verbatim>\<open>None\<close> or the dictionary of
  path costs. The two assertions on the proportion are caught by the function itself. The
  proportion is a float, as the function documents it.
\<close>

definition get_path_costs ::
  "(('n, unit) graph \<Rightarrow> 'n \<Rightarrow> 'n \<Rightarrow> string \<Rightarrow> error + rat) \<Rightarrow> (nat \<Rightarrow> nat)
     \<Rightarrow> 'n list \<Rightarrow> 'n adj_table \<Rightarrow> bool \<Rightarrow> rat
     \<Rightarrow> 'n event list \<times> (error + ('n \<times> 'n \<rightharpoonup> rat) option)"
where
  "get_path_costs spl rnd seeds adj_list print_prog sampled_proportion =
     (if \<not> (sampled_proportion > 0 \<and> sampled_proportion \<le> 1)
      then ([Print ''Sampled proportion must be in (0, 1]''], Inr None)
      else
        (let G = from_pandas_edgelist adj_list;
             combs = combinations2 seeds
         in case sample_count (length combs) sampled_proportion of
              Inl e \<Rightarrow> ([BuildGraph], Inl e)
            | Inr samples \<Rightarrow>
                (case path_loop rnd print_prog samples (\<lambda>home dest. spl G home dest ''cost'')
                        samples 0 combs Map.empty [BuildGraph] of
                   (tr, Inl e) \<Rightarrow> (tr, Inl e)
                 | (tr, Inr path_costs) \<Rightarrow> (tr, Inr (Some path_costs)))))"

text \<open>
  A reference model of \<^verbatim>\<open>nx.dijkstra_path_length(G, source, target, weight)\<close> for edge
  costs that are not negative. The cost of an edge is its attribute of the given name, and
  1 when the edge has no such attribute. A source that is not a node raises
  \<^verbatim>\<open>NodeNotFound\<close>; a target that cannot be reached raises \<^verbatim>\<open>NetworkXNoPath\<close>. The
  cheapest cost is found by relaxing every edge, in both directions, once per node.
\<close>

definition edge_cost :: "string \<Rightarrow> (string \<times> rat) list \<Rightarrow> rat" where
  "edge_cost weight d = (case map_of d weight of Some w \<Rightarrow> w | None \<Rightarrow> 1)"

definition relax :: "'n \<Rightarrow> 'n \<Rightarrow> rat \<Rightarrow> ('n \<rightharpoonup> rat) \<Rightarrow> ('n \<rightharpoonup> rat)" where
  "relax u v w dmap =
     (case dmap u of
        None \<Rightarrow> dmap
      | Some du \<Rightarrow>
          (case dmap v of
             None \<Rightarrow> dmap(v \<mapsto> du + w)
           | Some dv \<Rightarrow> if du + w < dv then dmap(v \<mapsto> du + w) else dmap))"

fun relax_all ::
  "string \<Rightarrow> ('n \<times> 'n \<times> (string \<times> rat) list) list \<Rightarrow> ('n \<rightharpoonup> rat) \<Rightarrow> ('n \<rightharpoonup> rat)"
where
  "relax_all weight [] dmap = dmap"
| "relax_all weight ((u, v, d) # es) dmap =
     relax_all weight es (relax v u (edge_cost weight d) (relax u v (edge_cost weight d) dmap))"

fun relax_rounds ::
  "nat \<Rightarrow> string \<Rightarrow> ('n \<times> 'n \<times> (string \<times> rat) list) list \<Rightarrow> ('n \<rightharpoonup> rat) \<Rightarrow> ('n \<rightharpoonup> rat)"
where
  "relax_rounds 0 weight es dmap = dmap"
| "relax_rounds (Suc k) weight es dmap = relax_rounds k weight es (relax_all weight es dmap)"

definition dijkstra_path_length ::
  "('n, 'v) graph \<Rightarrow> 'n \<Rightarrow> 'n \<Rightarrow> string \<Rightarrow> error + rat"
where
  "dijkstra_path_length G source target weight =
     (if source \<notin> set (g_nodes G) then Inl NodeNotFound
      else if source = target then Inr 0
      else (case relax_rounds (length (g_nodes G)) weight (g_edges G)
                   (Map.empty(source \<mapsto> 0)) target of
              None \<Rightarrow> Inl NetworkXNoPath
            | Some c \<Rightarrow> Inr c))"

text \<open>A random source whose every number is 0: each draw takes the first pending pair.\<close>

definition first_pending :: "nat \<Rightarrow> nat" where
  "first_pending i = 0"

section \<open>Example inputs\<close>

text \<open>
  A solver and graph algorithms that always succeed, on a forest of two joined nodes.
\<close>

definition example_forest :: "(string, attr_value) graph" where
  "example_forest =
     \<lparr> g_nodes = [''n1'', ''n2''],
       g_node_attr = (\<lambda>n. Map.empty),
       g_edges = [(''n1'', ''n2'', [(''cost'', 1)])] \<rparr>"

definition example_env :: "(unit, unit, unit, unit, unit, string) collaborators" where
  "example_env =
     \<lparr> Graph = (\<lambda>ppi params. Inr ()),
       prepare_prizes = (\<lambda>g prizes. Inr ()),
       pcsf = (\<lambda>g. Inr ()),
       output_forest_as_networkx = (\<lambda>g sol. Inr (example_forest, example_forest)),
       betweenness_centrality = (\<lambda>F. Inr [(''n1'', 0), (''n2'', 0)]),
       eigenvector_centrality = (\<lambda>F. Inr [(''n1'', 1 / 2), (''n2'', 1 / 2)]),
       degree_centrality = (\<lambda>F. Inr [(''n1'', 1), (''n2'', 1)]),
       best_partition = (\<lambda>F. Inr [(''n1'', 0), (''n2'', 0)]) \<rparr>"

text \<open>A graph of two nodes that carry the attribute \<^verbatim>\<open>score\<close>, 1/10 and 1/2.\<close>

definition scored_graph :: "(string, rat) graph" where
  "scored_graph =
     \<lparr> g_nodes = [''n1'', ''n2''],
       g_node_attr =
         (\<lambda>n. if n = ''n1'' then [''score'' \<mapsto> 1 / 10]
              else if n = ''n2'' then [''score'' \<mapsto> 1 / 2]
              else Map.empty),
       g_edges = [] \<rparr>"

text \<open>
  Edge tables. The first two have the rows (A, B, 1.0) and (B, C, 2.0) and differ in the
  label of the third column; the third has two edges that do not meet.
\<close>

definition chain_cost :: "string adj_table" where
  "chain_cost =
     \<lparr> col_source = ''source'', col_target = ''target'', col_cost = ''cost'',
       adj_rows = [(''A'', ''B'', 1), (''B'', ''C'', 2)] \<rparr>"

definition chain_weight :: "string adj_table" where
  "chain_weight =
     \<lparr> col_source = ''source'', col_target = ''target'', col_cost = ''weight'',
       adj_rows = [(''A'', ''B'', 1), (''B'', ''C'', 2)] \<rparr>"

definition two_islands :: "string adj_table" where
  "two_islands =
     \<lparr> col_source = ''source'', col_target = ''target'', col_cost = ''cost'',
       adj_rows = [(''A'', ''B'', 1), (''C'', ''D'', 1)] \<rparr>"

section \<open>Properties of the similarity\<close>

lemma union_card_zero: "card (set a \<union> set b) = 0 \<longleftrightarrow> a = [] \<and> b = []"
  by simp

lemma union_card_pos: "a \<noteq> [] \<or> b \<noteq> [] \<Longrightarrow> 0 < card (set a \<union> set b)"
  using union_card_zero [of a b] by linarith

text \<open>The two set sizes, computed on the lists (used to evaluate concrete calls).\<close>

lemma card_inter_list: "card (set a \<inter> set b) = length (remdups (filter (\<lambda>x. x \<in> set b) a))"
proof -
  have "set a \<inter> set b = set (filter (\<lambda>x. x \<in> set b) a)" by auto
  then show ?thesis by (simp only: card_set)
qed

lemma card_union_list: "card (set a \<union> set b) = length (remdups (a @ b))"
  using card_set [of "a @ b"] by (simp only: set_append)

lemma get_similarity_list:
  "get_similarity a b =
     true_div (length (remdups (filter (\<lambda>x. x \<in> set b) a))) (length (remdups (a @ b)))"
  by (simp only: get_similarity_def card_inter_list card_union_list)

text \<open>
  Claim C9. The set-overlap similarity is symmetric in its two arguments, and the similarity
  of a non-empty list with itself is exactly 1.
\<close>

theorem get_similarity_symmetric_and_reflexive:
  "get_similarity a b = get_similarity b a \<and>
   (a \<noteq> [] \<longrightarrow> get_similarity a a = Inr 1)"
  by (simp add: get_similarity_def true_div_def Int_commute Un_commute)

theorem get_similarity_symmetric_and_reflexive_witness:
  "get_similarity ''xyz'' ''yzw'' = get_similarity ''yzw'' ''xyz'' \<and>
   ''xyz'' \<noteq> [] \<and> get_similarity ''xyz'' ''xyz'' = Inr 1"
  using get_similarity_symmetric_and_reflexive [of "''xyz''" "''yzw''"]
  by simp

text \<open>
  Claim C10. With both lists empty the divisor is the size of an empty union, and the
  computation raises a division-by-zero error instead of returning a number. As soon as
  one of the lists is non-empty (in particular when both are) the divisor is positive and
  a number is returned.
\<close>

theorem get_similarity_division_defined:
  "get_similarity [] [] = Inl ZeroDivisionError \<and>
   (a \<noteq> [] \<or> b \<noteq> [] \<longrightarrow>
      0 < card (set a \<union> set b) \<and>
      get_similarity a b = Inr (of_nat (card (set a \<inter> set b)) / of_nat (card (set a \<union> set b))))"
  using union_card_pos [of a b]
  by (simp add: get_similarity_def true_div_def)

theorem get_similarity_division_defined_witness:
  "get_similarity ([] :: string list) [] = Inl ZeroDivisionError \<and>
   get_similarity [''a'', ''b''] [''b'', ''c''] = Inr (1 / 3)"
  using get_similarity_division_defined [of "[''a'', ''b'']" "[''b'', ''c'']"]
  by (simp add: get_similarity_list true_div_def card_union_list card_inter_list)

section \<open>Properties of the ID mapper\<close>

lemma dict_zip_dom:
  "length ks = length vs \<Longrightarrow> dom (dict_zip ks vs d) = dom d \<union> set ks"
  by (induction ks vs d rule: dict_zip.induct) auto

lemma dict_zip_pairs:
  "length ks = length vs \<Longrightarrow> dict_zip ks vs d k = Some v \<Longrightarrow>
     d k = Some v \<or> (k, v) \<in> set (zip ks vs)"
  by (induction ks vs d rule: dict_zip.induct) (auto split: if_splits)

lemma translate_ids_map:
  "translate_ids d ss out = out @ map (\<lambda>s. case d s of Some v \<Rightarrow> v | None \<Rightarrow> s) ss"
  by (induction ss arbitrary: out) (auto split: option.splits)

lemma string2gene_dom: "dom (string2gene tmp) = fst ` set tmp"
  by (simp add: string2gene_def dict_zip_dom)

lemma gene2string_dom: "dom (gene2string tmp) = snd ` set tmp"
  by (simp add: gene2string_def dict_zip_dom)

lemma string2gene_row: "string2gene tmp k = Some v \<Longrightarrow> (k, v) \<in> set tmp"
  using dict_zip_pairs [of "map fst tmp" "map snd tmp" Map.empty k v]
  by (simp add: string2gene_def zip_map_fst_snd)

lemma gene2string_row: "gene2string tmp k = Some v \<Longrightarrow> (v, k) \<in> set tmp"
proof -
  assume "gene2string tmp k = Some v"
  then have "(k, v) \<in> set (zip (map snd tmp) (map fst tmp))"
    using dict_zip_pairs [of "map snd tmp" "map fst tmp" Map.empty k v]
    by (simp add: gene2string_def)
  then show ?thesis
    by (auto simp add: zip_map_map in_set_zip) (metis nth_mem)
qed

text \<open>
  Claim C8. The output has one entry per input ID, in order. An ID that is a key of the
  mapping is replaced by a value the file maps it to (the one of the last row with that
  key); an ID that is not a key is emitted unchanged, so on a list of unmapped IDs the
  translation is the identity. This holds in both directions, and the example of the
  specification evaluates as stated.
\<close>

theorem convert_ids_pass_through:
  "length (convert_to_gene_symbol ids tmp) = length ids \<and>
   (\<forall>i < length ids.
      (ids ! i \<notin> fst ` set tmp \<longrightarrow> convert_to_gene_symbol ids tmp ! i = ids ! i) \<and>
      (ids ! i \<in> fst ` set tmp \<longrightarrow>
         string2gene tmp (ids ! i) = Some (convert_to_gene_symbol ids tmp ! i) \<and>
         (ids ! i, convert_to_gene_symbol ids tmp ! i) \<in> set tmp)) \<and>
   (set ids \<inter> fst ` set tmp = {} \<longrightarrow> convert_to_gene_symbol ids tmp = ids) \<and>
   length (convert_to_string_id ids tmp) = length ids \<and>
   (\<forall>i < length ids.
      (ids ! i \<notin> snd ` set tmp \<longrightarrow> convert_to_string_id ids tmp ! i = ids ! i) \<and>
      (ids ! i \<in> snd ` set tmp \<longrightarrow>
         gene2string tmp (ids ! i) = Some (convert_to_string_id ids tmp ! i) \<and>
         (convert_to_string_id ids tmp ! i, ids ! i) \<in> set tmp)) \<and>
   (set ids \<inter> snd ` set tmp = {} \<longrightarrow> convert_to_string_id ids tmp = ids) \<and>
   convert_to_gene_symbol [''9606.ENSP1'', ''UNKNOWN_ID''] [(''9606.ENSP1'', ''TP53'')]
     = [''TP53'', ''UNKNOWN_ID'']"
proof -
  have len1: "length (convert_to_gene_symbol ids tmp) = length ids"
    by (simp add: convert_to_gene_symbol_def translate_ids_map)
  have len2: "length (convert_to_string_id ids tmp) = length ids"
    by (simp add: convert_to_string_id_def translate_ids_map)
  have pos1: "\<forall>i < length ids.
      (ids ! i \<notin> fst ` set tmp \<longrightarrow> convert_to_gene_symbol ids tmp ! i = ids ! i) \<and>
      (ids ! i \<in> fst ` set tmp \<longrightarrow>
         string2gene tmp (ids ! i) = Some (convert_to_gene_symbol ids tmp ! i) \<and>
         (ids ! i, convert_to_gene_symbol ids tmp ! i) \<in> set tmp)"
  proof (intro allI impI)
    fix i assume i: "i < length ids"
    show "(ids ! i \<notin> fst ` set tmp \<longrightarrow> convert_to_gene_symbol ids tmp ! i = ids ! i) \<and>
      (ids ! i \<in> fst ` set tmp \<longrightarrow>
         string2gene tmp (ids ! i) = Some (convert_to_gene_symbol ids tmp ! i) \<and>
         (ids ! i, convert_to_gene_symbol ids tmp ! i) \<in> set tmp)"
    proof (cases "string2gene tmp (ids ! i)")
      case None
      then have "ids ! i \<notin> dom (string2gene tmp)" by (simp add: domIff)
      then have "ids ! i \<notin> fst ` set tmp" by (simp add: string2gene_dom)
      with None i show ?thesis
        by (simp add: convert_to_gene_symbol_def translate_ids_map)
    next
      case (Some v)
      then have row: "(ids ! i, v) \<in> set tmp" by (rule string2gene_row)
      have out: "convert_to_gene_symbol ids tmp ! i = v"
        using Some i by (simp add: convert_to_gene_symbol_def translate_ids_map)
      have "ids ! i \<in> fst ` set tmp"
        using row by (rule image_eqI [where x = "(ids ! i, v)", rotated]) simp
      with Some row show ?thesis
        by (simp only: out simp_thms)
    qed
  qed
  have pos2: "\<forall>i < length ids.
      (ids ! i \<notin> snd ` set tmp \<longrightarrow> convert_to_string_id ids tmp ! i = ids ! i) \<and>
      (ids ! i \<in> snd ` set tmp \<longrightarrow>
         gene2string tmp (ids ! i) = Some (convert_to_string_id ids tmp ! i) \<and>
         (convert_to_string_id ids tmp ! i, ids ! i) \<in> set tmp)"
  proof (intro allI impI)
    fix i assume i: "i < length ids"
    show "(ids ! i \<notin> snd ` set tmp \<longrightarrow> convert_to_string_id ids tmp ! i = ids ! i) \<and>
      (ids ! i \<in> snd ` set tmp \<longrightarrow>
         gene2string tmp (ids ! i) = Some (convert_to_string_id ids tmp ! i) \<and>
         (convert_to_string_id ids tmp ! i, ids ! i) \<in> set tmp)"
    proof (cases "gene2string tmp (ids ! i)")
      case None
      then have "ids ! i \<notin> dom (gene2string tmp)" by (simp add: domIff)
      then have "ids ! i \<notin> snd ` set tmp" by (simp add: gene2string_dom)
      with None i show ?thesis
        by (simp add: convert_to_string_id_def translate_ids_map)
    next
      case (Some v)
      then have row: "(v, ids ! i) \<in> set tmp" by (rule gene2string_row)
      have out: "convert_to_string_id ids tmp ! i = v"
        using Some i by (simp add: convert_to_string_id_def translate_ids_map)
      have "ids ! i \<in> snd ` set tmp"
        using row by (rule image_eqI [where x = "(v, ids ! i)", rotated]) simp
      with Some row show ?thesis
        by (simp only: out simp_thms)
    qed
  qed
  have id1: "set ids \<inter> fst ` set tmp = {} \<longrightarrow> convert_to_gene_symbol ids tmp = ids"
  proof
    assume "set ids \<inter> fst ` set tmp = {}"
    then have "\<forall>i < length ids. ids ! i \<notin> fst ` set tmp"
      by (meson disjoint_iff nth_mem)
    with pos1 len1 show "convert_to_gene_symbol ids tmp = ids"
      by (simp add: list_eq_iff_nth_eq)
  qed
  have id2: "set ids \<inter> snd ` set tmp = {} \<longrightarrow> convert_to_string_id ids tmp = ids"
  proof
    assume "set ids \<inter> snd ` set tmp = {}"
    then have "\<forall>i < length ids. ids ! i \<notin> snd ` set tmp"
      by (meson disjoint_iff nth_mem)
    with pos2 len2 show "convert_to_string_id ids tmp = ids"
      by (simp add: list_eq_iff_nth_eq)
  qed
  have ex: "convert_to_gene_symbol [''9606.ENSP1'', ''UNKNOWN_ID''] [(''9606.ENSP1'', ''TP53'')]
     = [''TP53'', ''UNKNOWN_ID'']"
    by (simp add: convert_to_gene_symbol_def string2gene_def)
  show ?thesis
    by (rule conjI [OF len1 conjI [OF pos1 conjI [OF id1 conjI [OF len2 conjI [OF pos2 conjI [OF id2 ex]]]]]])
qed

theorem convert_ids_pass_through_witness:
  "(1::nat) < length [''P1'', ''Q9'', ''P2''] \<and>
   [''P1'', ''Q9'', ''P2''] ! 1 \<notin> fst ` set [(''P1'', ''TP53''), (''P2'', ''MYC'')] \<and>
   convert_to_gene_symbol [''P1'', ''Q9'', ''P2''] [(''P1'', ''TP53''), (''P2'', ''MYC'')] ! 1 = ''Q9'' \<and>
   (2::nat) < length [''P1'', ''Q9'', ''P2''] \<and>
   [''P1'', ''Q9'', ''P2''] ! 2 \<in> fst ` set [(''P1'', ''TP53''), (''P2'', ''MYC'')] \<and>
   (''P2'', convert_to_gene_symbol [''P1'', ''Q9'', ''P2''] [(''P1'', ''TP53''), (''P2'', ''MYC'')] ! 2)
      \<in> set [(''P1'', ''TP53''), (''P2'', ''MYC'')] \<and>
   set [''Q8'', ''Q9''] \<inter> snd ` set [(''P1'', ''TP53''), (''P2'', ''MYC'')] = {} \<and>
   convert_to_string_id [''Q8'', ''Q9''] [(''P1'', ''TP53''), (''P2'', ''MYC'')] = [''Q8'', ''Q9'']"
proof -
  let ?ids = "[''P1'', ''Q9'', ''P2'']"
  let ?tmp = "[(''P1'', ''TP53''), (''P2'', ''MYC'')]"
  note t = convert_ids_pass_through [of ?ids ?tmp]
  note pos = conjunct1 [OF conjunct2 [OF t]]
  have h1: "(1::nat) < length ?ids" by simp
  have h1': "?ids ! 1 \<notin> fst ` set ?tmp" by simp
  have h2: "(2::nat) < length ?ids" by simp
  have h2': "?ids ! 2 \<in> fst ` set ?tmp" by simp
  have c1: "convert_to_gene_symbol ?ids ?tmp ! 1 = ''Q9''"
    using pos [rule_format, OF h1] h1' by simp
  have c2: "(?ids ! 2, convert_to_gene_symbol ?ids ?tmp ! 2) \<in> set ?tmp"
    using pos [rule_format, OF h2] h2' by blast
  have c2': "(''P2'', convert_to_gene_symbol ?ids ?tmp ! 2) \<in> set ?tmp"
    using c2 by simp
  note u = convert_ids_pass_through [of "[''Q8'', ''Q9'']" ?tmp]
  note idr = conjunct1 [OF conjunct2 [OF conjunct2 [OF conjunct2 [OF conjunct2 [OF conjunct2 [OF u]]]]]]
  have h3: "set [''Q8'', ''Q9''] \<inter> snd ` set ?tmp = {}" by simp
  have c3: "convert_to_string_id [''Q8'', ''Q9''] ?tmp = [''Q8'', ''Q9'']"
    using idr h3 by (rule mp)
  show ?thesis
    by (rule conjI [OF h1 conjI [OF h1' conjI [OF c1 conjI [OF h2 conjI [OF h2' conjI [OF c2' conjI [OF h3 c3]]]]]]])
qed

section \<open>Undefined names\<close>

lemma resolve_simMat: "resolve ''simMat'' = Inl (NameError ''simMat'')"
  by (simp add: resolve_def module_globals_def)

lemma resolve_sortBy: "resolve ''sortBy'' = Inl (NameError ''sortBy'')"
  by (simp add: resolve_def module_globals_def)

lemma resolve_community: "resolve ''community'' = Inl (NameError ''community'')"
  by (simp add: resolve_def module_globals_def)

lemma resolve_NetworkXNoPath: "resolve ''NetworkXNoPath'' = Inl (NameError ''NetworkXNoPath'')"
  by (simp add: resolve_def module_globals_def)

section \<open>Properties of the PCSF driver\<close>

lemma add_attributes_raises: "\<exists>e. add_attributes env F = Inl e"
  by (simp add: add_attributes_def Let_def resolve_community split: sum.split)

lemma add_attributes_name_error:
  assumes "betweenness_centrality env F = Inr bc"
    and "\<And>F'. eigenvector_centrality env F' = Inr ec"
    and "\<And>F'. degree_centrality env F' = Inr dc"
  shows "add_attributes env F = Inl (NameError ''community'')"
  using assms by (simp add: add_attributes_def Let_def resolve_community)

lemma add_attributes_example:
  "add_attributes example_env example_forest = Inl (NameError ''community'')"
  by (simp add: add_attributes_def Let_def resolve_community example_env_def)

text \<open>
  Claim C1 (fails on the code). With \<^verbatim>\<open>add_attribs\<close> at its default the call never
  returns a forest: whenever the solver and the three centrality computations succeed, the
  fourth statement raises \<^verbatim>\<open>NameError\<close> for the name \<^verbatim>\<open>community\<close>, which the module
  does not bind. On the example solver the call raises exactly that, and the same call with
  \<^verbatim>\<open>add_attribs\<close> switched off returns the forest.
\<close>

theorem run_pcsf_default_raises:
  "(\<exists>e. snd (run_pcsf env now prizes ppi params tm True) = Inl e) \<and>
   snd (run_pcsf example_env now () () () tm True) = Inl (NameError ''community'') \<and>
   snd (run_pcsf example_env now () () () tm False) = Inr example_forest"
proof -
  have "\<exists>e. snd (run_pcsf env now prizes ppi params tm True) = Inl e"
    using add_attributes_raises [of env]
    by (auto simp add: run_pcsf_def split: sum.split)
  moreover have "snd (run_pcsf example_env now () () () tm True) = Inl (NameError ''community'')"
    using add_attributes_example
    by (simp add: run_pcsf_def example_env_def)
  moreover have "snd (run_pcsf example_env now () () () tm False) = Inr example_forest"
    by (simp add: run_pcsf_def example_env_def)
  ultimately show ?thesis by (intro conjI)
qed

section \<open>Properties of the solution comparator\<close>

text \<open>
  Claim C4 (fails on the code). The rows and the pivoted table are computed into the local
  variable \<^verbatim>\<open>sim_mat\<close>, but the function returns \<^verbatim>\<open>simMat\<close>, a name that is not bound:
  every call raises. For two solutions that share one of three elements the local table
  holds the overlaps 1 and 1/3, and the call raises \<^verbatim>\<open>NameError\<close>.
\<close>

theorem make_solution_similarity_matrix_raises:
  "(\<exists>e. make_solution_similarity_matrix res_dict = Inl e) \<and>
   (\<exists>t. sim_mat_local [(''s1'', [''a'', ''b'']), (''s2'', [''b'', ''c''])] = Inr t \<and>
        pt_index t = {''s1'', ''s2''} \<and> pt_columns t = {''s1'', ''s2''} \<and>
        pt_cell t (''s1'', ''s1'') = Some 1 \<and> pt_cell t (''s1'', ''s2'') = Some (1 / 3) \<and>
        pt_cell t (''s2'', ''s1'') = Some (1 / 3) \<and> pt_cell t (''s2'', ''s2'') = Some 1) \<and>
   make_solution_similarity_matrix [(''s1'', [''a'', ''b'']), (''s2'', [''b'', ''c''])]
     = Inl (NameError ''simMat'')"
proof -
  have general: "\<exists>e. make_solution_similarity_matrix res_dict = Inl e"
    by (simp add: make_solution_similarity_matrix_def resolve_simMat split: sum.split)
  have rows: "sim_rows [(''s1'', [''a'', ''b'']), (''s2'', [''b'', ''c''])]
                [(''s1'', ''s1''), (''s1'', ''s2''), (''s2'', ''s1''), (''s2'', ''s2'')] []
              = Inr [(''s1'', ''s1'', 1), (''s1'', ''s2'', 1 / 3), (''s2'', ''s1'', 1 / 3), (''s2'', ''s2'', 1)]"
    by (simp add: getitem_def get_similarity_list true_div_def)
  have local: "sim_mat_local [(''s1'', [''a'', ''b'']), (''s2'', [''b'', ''c''])]
      = Inr \<lparr> pt_index = {''s1'', ''s2''}, pt_columns = {''s1'', ''s2''},
              pt_cell = map_of [((''s1'', ''s1''), 1), ((''s1'', ''s2''), 1 / 3),
                                ((''s2'', ''s1''), 1 / 3), ((''s2'', ''s2''), 1)] \<rparr>"
  proof -
    have keys: "List.product (map fst [(''s1'', [''a'', ''b'']), (''s2'', [''b'', ''c''])])
                  (map fst [(''s1'', [''a'', ''b'']), (''s2'', [''b'', ''c''])])
                = [(''s1'', ''s1''), (''s1'', ''s2''), (''s2'', ''s1''), (''s2'', ''s2'')]"
      by simp
    show ?thesis
      by (simp only: sim_mat_local_def keys rows) (simp add: pivot_def insert_commute)
  qed
  have cells: "\<exists>t. sim_mat_local [(''s1'', [''a'', ''b'']), (''s2'', [''b'', ''c''])] = Inr t \<and>
        pt_index t = {''s1'', ''s2''} \<and> pt_columns t = {''s1'', ''s2''} \<and>
        pt_cell t (''s1'', ''s1'') = Some 1 \<and> pt_cell t (''s1'', ''s2'') = Some (1 / 3) \<and>
        pt_cell t (''s2'', ''s1'') = Some (1 / 3) \<and> pt_cell t (''s2'', ''s2'') = Some 1"
    by (simp add: local)
  have raised: "make_solution_similarity_matrix [(''s1'', [''a'', ''b'']), (''s2'', [''b'', ''c''])]
     = Inl (NameError ''simMat'')"
    by (simp add: make_solution_similarity_matrix_def local resolve_simMat)
  show ?thesis
    by (rule conjI [OF general conjI [OF cells raised]])
qed

section \<open>Properties of the network summarizer\<close>

lemma scored_table:
  "add_columns scored_graph [''score''] \<lparr> df_index = g_nodes scored_graph, df_columns = [] \<rparr>
     = Inr \<lparr> df_index = [''n1'', ''n2''], df_columns = [(''score'', [1 / 10, 1 / 2])] \<rparr>"
  by (simp add: scored_graph_def setitem_def get_node_attributes_def)

text \<open>
  Claim C5 (fails on the code). Once the table is assembled and \<^verbatim>\<open>sort_by\<close> is given,
  the call never returns a sorted table: when \<^verbatim>\<open>sort_by\<close> is not a column the assertion
  fails, as claimed, and when it is a column the sorting call names \<^verbatim>\<open>sortBy\<close>, which is
  not bound, and raises \<^verbatim>\<open>NameError\<close>.
\<close>

theorem get_network_details_sort_raises:
  assumes "add_columns G atts \<lparr> df_index = g_nodes G, df_columns = [] \<rparr> = Inr att_df"
    and "truthy sort_by"
  shows "get_network_details G atts sort_by =
           (if the sort_by \<in> set (map fst (df_columns att_df))
            then Inl (NameError ''sortBy'') else Inl AssertionError)"
  using assms by (simp add: get_network_details_def resolve_sortBy)

theorem get_network_details_sort_raises_witness:
  "add_columns scored_graph [''score''] \<lparr> df_index = g_nodes scored_graph, df_columns = [] \<rparr>
     = Inr \<lparr> df_index = [''n1'', ''n2''], df_columns = [(''score'', [1 / 10, 1 / 2])] \<rparr> \<and>
   truthy (Some ''score'') \<and>
   get_network_details scored_graph [''score''] (Some ''score'') = Inl (NameError ''sortBy'') \<and>
   truthy (Some ''rank'') \<and>
   get_network_details scored_graph [''score''] (Some ''rank'') = Inl AssertionError \<and>
   get_network_details scored_graph [''score''] None
     = Inr \<lparr> df_index = [''n1'', ''n2''], df_columns = [(''score'', [1 / 10, 1 / 2])] \<rparr>"
proof -
  have t1: "truthy (Some ''score'')" by (simp add: truthy_def)
  have t2: "truthy (Some ''rank'')" by (simp add: truthy_def)
  have r1: "get_network_details scored_graph [''score''] (Some ''score'') = Inl (NameError ''sortBy'')"
    using get_network_details_sort_raises [OF scored_table t1] by simp
  have r2: "get_network_details scored_graph [''score''] (Some ''rank'') = Inl AssertionError"
    using get_network_details_sort_raises [OF scored_table t2] by simp
  have r3: "get_network_details scored_graph [''score''] None
     = Inr \<lparr> df_index = [''n1'', ''n2''], df_columns = [(''score'', [1 / 10, 1 / 2])] \<rparr>"
    by (simp only: get_network_details_def scored_table) (simp add: truthy_def)
  show ?thesis
    by (rule conjI [OF scored_table conjI [OF t1 conjI [OF r1 conjI [OF t2 conjI [OF r2 r3]]]]])
qed

section \<open>Properties of the path cost sampler\<close>

text \<open>
  Claim C6. A proportion that is not in (0, 1] makes the call print the validation message
  and return \<^verbatim>\<open>None\<close> without raising; the message is its only effect, so no graph is
  built, no random number is drawn and no path is queried.
\<close>

theorem get_path_costs_invalid_proportion:
  "p \<le> 0 \<or> 1 < p \<Longrightarrow>
     get_path_costs spl rnd seeds adj_list print_prog p
       = ([Print ''Sampled proportion must be in (0, 1]''], Inr None)"
  by (auto simp add: get_path_costs_def)

theorem get_path_costs_invalid_proportion_witness:
  "((3 / 2 :: rat) \<le> 0 \<or> 1 < (3 / 2 :: rat)) \<and>
   get_path_costs dijkstra_path_length first_pending [''A'', ''B'', ''C''] chain_cost True (3 / 2)
     = ([Print ''Sampled proportion must be in (0, 1]''], Inr None) \<and>
   ((0 :: rat) \<le> 0 \<or> 1 < (0 :: rat)) \<and>
   get_path_costs dijkstra_path_length first_pending [''A'', ''B'', ''C''] chain_cost False 0
     = ([Print ''Sampled proportion must be in (0, 1]''], Inr None)"
proof -
  have h1: "(3 / 2 :: rat) \<le> 0 \<or> 1 < (3 / 2 :: rat)" by simp
  have h2: "(0 :: rat) \<le> 0 \<or> 1 < (0 :: rat)" by simp
  show ?thesis
    by (rule conjI [OF h1 conjI [OF get_path_costs_invalid_proportion [OF h1]
          conjI [OF h2 get_path_costs_invalid_proportion [OF h2]]]])
qed

subsection \<open>The sampling loop\<close>

lemma queries_append: "queries (a @ b) = queries a @ queries b"
  by (induction a rule: queries.induct) simp_all

lemma pop_subset: "set (take k xs @ drop (Suc k) xs) \<subseteq> set xs"
  using set_take_subset [of k xs] set_drop_subset [of "Suc k" xs] by auto

lemma pop_length: "k < length xs \<Longrightarrow> length (take k xs @ drop (Suc k) xs) = length xs - 1"
  by simp

lemma pop_distinct:
  assumes "distinct xs" and "k < length xs"
  shows "distinct (take k xs @ drop (Suc k) xs) \<and> xs ! k \<notin> set (take k xs @ drop (Suc k) xs)"
proof -
  have xs: "xs = take k xs @ xs ! k # drop (Suc k) xs"
    using assms(2) by (rule id_take_nth_drop)
  have "distinct (take k xs @ xs ! k # drop (Suc k) xs)"
    using assms(1) xs by simp
  then show ?thesis by simp
qed

text \<open>
  The shape of a run of the loop. The queries it adds are members of the pending list, and
  distinct when the pending pairs are. When it returns, it has made \<open>n\<close> queries, all of
  them answered, and the dictionary holds exactly their costs on top of the old entries.
  When it raises, either the last query failed, every earlier one was answered and the
  error is the \<^verbatim>\<open>NameError\<close> of the handler, or the pending list ran out.
\<close>

lemma path_loop_shape:
  assumes "path_loop rnd pp samples sp n i combs pc tr = (tr', r)"
  shows "\<exists>qs. queries tr' = queries tr @ qs \<and> (distinct combs \<longrightarrow> distinct qs) \<and>
           set qs \<subseteq> set combs \<and>
           (case r of
              Inr pc' \<Rightarrow> length qs = n \<and> (\<forall>q \<in> set qs. \<exists>c. sp (fst q) (snd q) = Inr c) \<and>
                 (\<forall>q. pc' q = (if q \<in> set qs
                                 then (case sp (fst q) (snd q) of Inr c \<Rightarrow> Some c | Inl e \<Rightarrow> None)
                                 else pc q))
            | Inl e \<Rightarrow>
                 (e = NameError ''NetworkXNoPath'' \<and> qs \<noteq> [] \<and>
                    (\<exists>e'. sp (fst (last qs)) (snd (last qs)) = Inl e') \<and>
                    (\<forall>q \<in> set (butlast qs). \<exists>c. sp (fst q) (snd q) = Inr c)) \<or>
                 (e = ValueError \<and> length combs < n \<and>
                    (\<forall>q \<in> set qs. \<exists>c. sp (fst q) (snd q) = Inr c)))"
  using assms
proof (induction n arbitrary: i combs pc tr)
  case 0
  then show ?case by (intro exI [of _ "[]"]) auto
next
  case (Suc n)
  let ?tr1 = "(if pp then tr @ [Progress (100 * of_nat i / of_nat samples)] else tr)"
  show ?case
  proof (cases "combs = []")
    case True
    then have "tr' = ?tr1 @ [RandRange (length combs)]" and "r = Inl ValueError"
      using Suc.prems by (simp_all add: Let_def)
    then show ?thesis
      using True by (intro exI [of _ "[]"]) (simp add: queries_append)
  next
    case ne: False
    let ?k = "rnd i mod length combs"
    let ?q = "combs ! ?k"
    let ?combs' = "take ?k combs @ drop (Suc ?k) combs"
    let ?tr3 = "?tr1 @ [RandRange (length combs)] @ [PathQuery (fst ?q) (snd ?q)]"
    from ne have k: "?k < length combs" by simp
    have q_in: "?q \<in> set combs" using k by simp
    have len': "length ?combs' = length combs - 1" using pop_length [OF k] .
    have qtr3: "queries ?tr3 = queries tr @ [?q]"
      by (simp add: queries_append)
    show ?thesis
    proof (cases "sp (fst ?q) (snd ?q)")
      case (Inl e)
      then have "tr' = ?tr3" and "r = Inl (NameError ''NetworkXNoPath'')"
        using Suc.prems ne by (simp_all add: Let_def resolve_NetworkXNoPath)
      then show ?thesis
        using qtr3 q_in Inl by (intro exI [of _ "[?q]"]) auto
    next
      case (Inr c)
      then have rec: "path_loop rnd pp samples sp n (Suc i) ?combs' (pc(?q \<mapsto> c)) ?tr3 = (tr', r)"
        using Suc.prems ne by (simp add: Let_def)
      from Suc.IH [OF rec] obtain qs where
        qs: "queries tr' = queries ?tr3 @ qs" "distinct ?combs' \<longrightarrow> distinct qs"
          "set qs \<subseteq> set ?combs'"
        and res: "(case r of
              Inr pc' \<Rightarrow> length qs = n \<and> (\<forall>q \<in> set qs. \<exists>c. sp (fst q) (snd q) = Inr c) \<and>
                 (\<forall>q. pc' q = (if q \<in> set qs
                                 then (case sp (fst q) (snd q) of Inr c \<Rightarrow> Some c | Inl e \<Rightarrow> None)
                                 else (pc(?q \<mapsto> c)) q))
            | Inl e \<Rightarrow>
                 (e = NameError ''NetworkXNoPath'' \<and> qs \<noteq> [] \<and>
                    (\<exists>e'. sp (fst (last qs)) (snd (last qs)) = Inl e') \<and>
                    (\<forall>q \<in> set (butlast qs). \<exists>c. sp (fst q) (snd q) = Inr c)) \<or>
                 (e = ValueError \<and> length ?combs' < n \<and>
                    (\<forall>q \<in> set qs. \<exists>c. sp (fst q) (snd q) = Inr c)))"
        by blast
      have sub: "set (?q # qs) \<subseteq> set combs"
        using qs(3) pop_subset [of ?k combs] q_in by auto
      have a: "queries tr' = queries tr @ (?q # qs)" using qs(1) qtr3 by simp
      have b: "distinct combs \<longrightarrow> distinct (?q # qs)"
        using pop_distinct [OF _ k] qs(2) qs(3) by auto
      have okq: "\<exists>c. sp (fst ?q) (snd ?q) = Inr c" using Inr by simp
      have c: "(case r of
              Inr pc' \<Rightarrow> length (?q # qs) = Suc n \<and>
                 (\<forall>q \<in> set (?q # qs). \<exists>c. sp (fst q) (snd q) = Inr c) \<and>
                 (\<forall>q. pc' q = (if q \<in> set (?q # qs)
                                 then (case sp (fst q) (snd q) of Inr c \<Rightarrow> Some c | Inl e \<Rightarrow> None)
                                 else pc q))
            | Inl e \<Rightarrow>
                 (e = NameError ''NetworkXNoPath'' \<and> ?q # qs \<noteq> [] \<and>
                    (\<exists>e'. sp (fst (last (?q # qs))) (snd (last (?q # qs))) = Inl e') \<and>
                    (\<forall>q \<in> set (butlast (?q # qs)). \<exists>c. sp (fst q) (snd q) = Inr c)) \<or>
                 (e = ValueError \<and> length combs < Suc n \<and>
                    (\<forall>q \<in> set (?q # qs). \<exists>c. sp (fst q) (snd q) = Inr c)))"
      proof (cases r)
        case l: (Inl e)
        from res l have alt:
          "(e = NameError ''NetworkXNoPath'' \<and> qs \<noteq> [] \<and>
              (\<exists>e'. sp (fst (last qs)) (snd (last qs)) = Inl e') \<and>
              (\<forall>q \<in> set (butlast qs). \<exists>c. sp (fst q) (snd q) = Inr c)) \<or>
           (e = ValueError \<and> length ?combs' < n \<and>
              (\<forall>q \<in> set qs. \<exists>c. sp (fst q) (snd q) = Inr c))"
          by simp
        then show ?thesis
        proof
          assume h: "e = NameError ''NetworkXNoPath'' \<and> qs \<noteq> [] \<and>
              (\<exists>e'. sp (fst (last qs)) (snd (last qs)) = Inl e') \<and>
              (\<forall>q \<in> set (butlast qs). \<exists>c. sp (fst q) (snd q) = Inr c)"
          then have "last (?q # qs) = last qs" and "butlast (?q # qs) = ?q # butlast qs"
            by simp_all
          with h okq l show ?thesis by simp
        next
          assume h: "e = ValueError \<and> length ?combs' < n \<and>
              (\<forall>q \<in> set qs. \<exists>c. sp (fst q) (snd q) = Inr c)"
          from h have "length ?combs' < n" by (elim conjE)
          then have "length combs - 1 < n" by (simp only: len')
          then have "length combs < Suc n" by arith
          with h okq l show ?thesis by simp
        qed
      next
        case r: (Inr pc')
        from res r have l: "length qs = n"
          and ok: "\<forall>q \<in> set qs. \<exists>c. sp (fst q) (snd q) = Inr c"
          and m: "\<And>q. pc' q = (if q \<in> set qs
                                 then (case sp (fst q) (snd q) of Inr c \<Rightarrow> Some c | Inl e \<Rightarrow> None)
                                 else (pc(?q \<mapsto> c)) q)"
          by (simp_all del: split_paired_All)
        have m': "pc' q = (if q \<in> set (?q # qs)
                                 then (case sp (fst q) (snd q) of Inr c \<Rightarrow> Some c | Inl e \<Rightarrow> None)
                                 else pc q)" for q
        proof (cases "q = ?q")
          case True
          then show ?thesis using m [of q] Inr by simp
        next
          case False
          then show ?thesis using m [of q] by simp
        qed
        have ok': "\<forall>q \<in> set (?q # qs). \<exists>c. sp (fst q) (snd q) = Inr c"
          using ok okq by simp
        show ?thesis using r l ok' m' by (simp del: split_paired_All)
      qed
      from a b sub c show ?thesis by blast
    qed
  qed
qed

lemma combinations2_length: "length (combinations2 xs) = length xs choose 2"
  by (induction xs) (simp_all add: numeral_2_eq_2)

lemma combinations2_members:
  "(a, b) \<in> set (combinations2 xs) \<Longrightarrow> a \<in> set xs \<and> b \<in> set xs"
  by (induction xs) auto

lemma combinations2_distinct: "distinct xs \<Longrightarrow> distinct (combinations2 xs)"
proof (induction xs)
  case Nil
  then show ?case by simp
next
  case (Cons x xs)
  have "distinct (map (Pair x) xs)"
    using Cons.prems by (simp add: distinct_map inj_on_def)
  moreover have "set (map (Pair x) xs) \<inter> set (combinations2 xs) = {}"
    using Cons.prems combinations2_members [of x _ xs] by auto
  ultimately show ?case using Cons by simp
qed

lemma combinations2_unordered:
  "distinct xs \<Longrightarrow> (a, b) \<in> set (combinations2 xs) \<Longrightarrow>
     a \<noteq> b \<and> (b, a) \<notin> set (combinations2 xs)"
proof (induction xs)
  case Nil
  then show ?case by simp
next
  case (Cons x xs)
  show ?case
  proof (cases "(a, b) \<in> set (combinations2 xs)")
    case True
    then have "a \<noteq> b \<and> (b, a) \<notin> set (combinations2 xs)"
      using Cons by simp
    moreover have "b \<in> set xs" using True combinations2_members by fast
    ultimately show ?thesis using Cons.prems(1) by auto
  next
    case False
    then have "a = x" and "b \<in> set xs" using Cons.prems(2) by auto
    then show ?thesis
      using Cons.prems(1) combinations2_members [of b x xs] by auto
  qed
qed

lemma get_path_costs_shape:
  assumes p: "0 < p" "p \<le> 1"
    and run: "get_path_costs spl rnd seeds adj_list print_prog p = (tr, r)"
  shows "(distinct seeds \<longrightarrow> distinct (queries tr)) \<and>
         set (queries tr) \<subseteq> set (combinations2 seeds) \<and>
         (case r of
            Inr v \<Rightarrow>
              sample_count (length (combinations2 seeds)) p = Inr (length (queries tr)) \<and>
              (\<forall>q \<in> set (queries tr).
                 \<exists>c. spl (from_pandas_edgelist adj_list) (fst q) (snd q) ''cost'' = Inr c) \<and>
              (\<exists>m. v = Some m \<and>
                 (\<forall>q. m q = (if q \<in> set (queries tr)
                              then (case spl (from_pandas_edgelist adj_list) (fst q) (snd q) ''cost'' of
                                      Inr c \<Rightarrow> Some c | Inl e \<Rightarrow> None)
                              else None)))
          | Inl e \<Rightarrow>
              (e = NameError ''NetworkXNoPath'' \<and> queries tr \<noteq> [] \<and>
                 (\<exists>e'. spl (from_pandas_edgelist adj_list)
                         (fst (last (queries tr))) (snd (last (queries tr))) ''cost'' = Inl e') \<and>
                 (\<forall>q \<in> set (butlast (queries tr)).
                    \<exists>c. spl (from_pandas_edgelist adj_list) (fst q) (snd q) ''cost'' = Inr c)) \<or>
              (e = ValueError \<and>
                 (\<exists>n. sample_count (length (combinations2 seeds)) p = Inr n \<and>
                      length (combinations2 seeds) < n) \<and>
                 (\<forall>q \<in> set (queries tr).
                    \<exists>c. spl (from_pandas_edgelist adj_list) (fst q) (snd q) ''cost'' = Inr c)) \<or>
              (sample_count (length (combinations2 seeds)) p = Inl e \<and> queries tr = []))"
proof -
  let ?G = "from_pandas_edgelist adj_list :: ('a, unit) graph"
  let ?sp = "\<lambda>home dest. spl ?G home dest ''cost''"
  let ?combs = "combinations2 seeds"
  show ?thesis
  proof (cases "sample_count (length ?combs) p")
    case (Inl e)
    then have "tr = [BuildGraph]" and "r = Inl e"
      using run p by (simp_all add: get_path_costs_def Let_def)
    then show ?thesis using Inl by simp
  next
    case (Inr n)
    obtain tr0 r0 where loop: "path_loop rnd print_prog n ?sp n 0 ?combs Map.empty [BuildGraph] = (tr0, r0)"
      by (cases "path_loop rnd print_prog n ?sp n 0 ?combs Map.empty [BuildGraph]") blast
    have tr: "tr = tr0" and r: "r = map_sum id Some r0"
      using run p loop Inr by (auto simp add: get_path_costs_def Let_def split: sum.splits)
    from path_loop_shape [OF loop] obtain qs where
      qs: "queries tr0 = queries [BuildGraph] @ qs" "distinct ?combs \<longrightarrow> distinct qs"
        "set qs \<subseteq> set ?combs"
      and res: "(case r0 of
              Inr pc' \<Rightarrow> length qs = n \<and> (\<forall>q \<in> set qs. \<exists>c. ?sp (fst q) (snd q) = Inr c) \<and>
                 (\<forall>q. pc' q = (if q \<in> set qs
                                 then (case ?sp (fst q) (snd q) of Inr c \<Rightarrow> Some c | Inl e \<Rightarrow> None)
                                 else Map.empty q))
            | Inl e \<Rightarrow>
                 (e = NameError ''NetworkXNoPath'' \<and> qs \<noteq> [] \<and>
                    (\<exists>e'. ?sp (fst (last qs)) (snd (last qs)) = Inl e') \<and>
                    (\<forall>q \<in> set (butlast qs). \<exists>c. ?sp (fst q) (snd q) = Inr c)) \<or>
                 (e = ValueError \<and> length ?combs < n \<and>
                    (\<forall>q \<in> set qs. \<exists>c. ?sp (fst q) (snd q) = Inr c)))"
      by blast
    have q: "queries tr = qs" using qs(1) tr by simp
    have d: "distinct seeds \<longrightarrow> distinct (queries tr)"
      using qs(2) q combinations2_distinct by blast
    have s: "set (queries tr) \<subseteq> set ?combs" using qs(3) q by simp
    have c: "(case r of
            Inr v \<Rightarrow>
              sample_count (length ?combs) p = Inr (length (queries tr)) \<and>
              (\<forall>q \<in> set (queries tr). \<exists>c. ?sp (fst q) (snd q) = Inr c) \<and>
              (\<exists>m. v = Some m \<and>
                 (\<forall>q. m q = (if q \<in> set (queries tr)
                              then (case ?sp (fst q) (snd q) of
                                      Inr c \<Rightarrow> Some c | Inl e \<Rightarrow> None)
                              else None)))
          | Inl e \<Rightarrow>
              (e = NameError ''NetworkXNoPath'' \<and> queries tr \<noteq> [] \<and>
                 (\<exists>e'. ?sp (fst (last (queries tr))) (snd (last (queries tr))) = Inl e') \<and>
                 (\<forall>q \<in> set (butlast (queries tr)). \<exists>c. ?sp (fst q) (snd q) = Inr c)) \<or>
              (e = ValueError \<and>
                 (\<exists>n. sample_count (length ?combs) p = Inr n \<and> length ?combs < n) \<and>
                 (\<forall>q \<in> set (queries tr). \<exists>c. ?sp (fst q) (snd q) = Inr c)) \<or>
              (sample_count (length ?combs) p = Inl e \<and> queries tr = []))"
    proof (cases r0)
      case l: (Inl e)
      from res l have alt:
        "(e = NameError ''NetworkXNoPath'' \<and> qs \<noteq> [] \<and>
            (\<exists>e'. ?sp (fst (last qs)) (snd (last qs)) = Inl e') \<and>
            (\<forall>q \<in> set (butlast qs). \<exists>c. ?sp (fst q) (snd q) = Inr c)) \<or>
         (e = ValueError \<and> length ?combs < n \<and>
            (\<forall>q \<in> set qs. \<exists>c. ?sp (fst q) (snd q) = Inr c))"
        by simp
      have re: "r = Inl e" using r l by simp
      from alt show ?thesis
      proof
        assume "e = NameError ''NetworkXNoPath'' \<and> qs \<noteq> [] \<and>
            (\<exists>e'. ?sp (fst (last qs)) (snd (last qs)) = Inl e') \<and>
            (\<forall>q \<in> set (butlast qs). \<exists>c. ?sp (fst q) (snd q) = Inr c)"
        then show ?thesis unfolding re q sum.case by (rule disjI1)
      next
        assume h: "e = ValueError \<and> length ?combs < n \<and>
            (\<forall>q \<in> set qs. \<exists>c. ?sp (fst q) (snd q) = Inr c)"
        then have "e = ValueError \<and>
                 (\<exists>n. sample_count (length ?combs) p = Inr n \<and> length ?combs < n) \<and>
                 (\<forall>q \<in> set qs. \<exists>c. ?sp (fst q) (snd q) = Inr c)"
          using Inr by blast
        then show ?thesis unfolding re q sum.case by (intro disjI2 disjI1)
      qed
    next
      case rr: (Inr pc')
      from res rr have l: "length qs = n"
        and ok: "\<forall>q \<in> set qs. \<exists>c. ?sp (fst q) (snd q) = Inr c"
        and m: "\<forall>q. pc' q = (if q \<in> set qs
                                 then (case ?sp (fst q) (snd q) of Inr c \<Rightarrow> Some c | Inl e \<Rightarrow> None)
                                 else None)"
        by (simp_all del: split_paired_All)
      have re: "r = Inr (Some pc')" using r rr by simp
      have sc: "sample_count (length ?combs) p = Inr (length qs)" using Inr l by simp
      have ex: "\<exists>m. Some pc' = Some m \<and>
                 (\<forall>q. m q = (if q \<in> set qs
                              then (case ?sp (fst q) (snd q) of
                                      Inr c \<Rightarrow> Some c | Inl e \<Rightarrow> None)
                              else None))"
        using m by blast
      show ?thesis unfolding re q sum.case
        by (rule conjI [OF sc conjI [OF ok ex]])
    qed
    from d s c show ?thesis by (intro conjI)
  qed
qed

lemma get_path_costs_all_pairs:
  assumes d: "distinct seeds"
    and sc: "sample_count (length (combinations2 seeds)) 1 = Inr (length (combinations2 seeds))"
    and ok: "\<forall>q \<in> set (combinations2 seeds).
               \<exists>c. spl (from_pandas_edgelist adj_list) (fst q) (snd q) ''cost'' = Inr c"
  shows "\<exists>tr m. get_path_costs spl rnd seeds adj_list print_prog 1 = (tr, Inr (Some m)) \<and>
           set (queries tr) = set (combinations2 seeds) \<and>
           (\<forall>q. m q = (if q \<in> set (combinations2 seeds)
                        then (case spl (from_pandas_edgelist adj_list) (fst q) (snd q) ''cost'' of
                                Inr c \<Rightarrow> Some c | Inl e \<Rightarrow> None)
                        else None))"
proof -
  let ?ok = "\<lambda>q. spl (from_pandas_edgelist adj_list) (fst q) (snd q) ''cost''"
  obtain tr r where run: "get_path_costs spl rnd seeds adj_list print_prog 1 = (tr, r)"
    by (cases "get_path_costs spl rnd seeds adj_list print_prog 1") blast
  have p: "(0::rat) < 1" "(1::rat) \<le> 1" by simp_all
  note sh = get_path_costs_shape [OF p run]
  note sh1 = conjunct1 [OF sh]
  note sh2 = conjunct1 [OF conjunct2 [OF sh]]
  note sh3 = conjunct2 [OF conjunct2 [OF sh]]
  have dq: "distinct (queries tr)" using sh1 d by (rule mp)
  show ?thesis
  proof (cases r)
    case (Inl e)
    from sh3 have alt:
      "(e = NameError ''NetworkXNoPath'' \<and> queries tr \<noteq> [] \<and>
          (\<exists>e'. ?ok (last (queries tr)) = Inl e') \<and>
          (\<forall>q \<in> set (butlast (queries tr)). \<exists>c. ?ok q = Inr c)) \<or>
       (e = ValueError \<and>
          (\<exists>n. sample_count (length (combinations2 seeds)) 1 = Inr n \<and>
               length (combinations2 seeds) < n) \<and>
          (\<forall>q \<in> set (queries tr). \<exists>c. ?ok q = Inr c)) \<or>
       (sample_count (length (combinations2 seeds)) 1 = Inl e \<and> queries tr = [])"
      unfolding Inl sum.case .
    then show ?thesis
    proof (elim disjE)
      assume h: "e = NameError ''NetworkXNoPath'' \<and> queries tr \<noteq> [] \<and>
          (\<exists>e'. ?ok (last (queries tr)) = Inl e') \<and>
          (\<forall>q \<in> set (butlast (queries tr)). \<exists>c. ?ok q = Inr c)"
      then obtain e' where f: "?ok (last (queries tr)) = Inl e'" by blast
      from h have "last (queries tr) \<in> set (queries tr)" by simp
      with sh2 have "last (queries tr) \<in> set (combinations2 seeds)" by (rule subsetD)
      with ok obtain c where "?ok (last (queries tr)) = Inr c" by blast
      with f show ?thesis by simp
    next
      assume "e = ValueError \<and>
          (\<exists>n. sample_count (length (combinations2 seeds)) 1 = Inr n \<and>
               length (combinations2 seeds) < n) \<and>
          (\<forall>q \<in> set (queries tr). \<exists>c. ?ok q = Inr c)"
      then obtain n where "sample_count (length (combinations2 seeds)) 1 = Inr n"
        and "length (combinations2 seeds) < n" by blast
      with sc show ?thesis by simp
    next
      assume "sample_count (length (combinations2 seeds)) 1 = Inl e \<and> queries tr = []"
      with sc show ?thesis by simp
    qed
  next
    case (Inr v)
    from sh3 have all: "sample_count (length (combinations2 seeds)) 1 = Inr (length (queries tr)) \<and>
              (\<forall>q \<in> set (queries tr). \<exists>c. ?ok q = Inr c) \<and>
              (\<exists>m. v = Some m \<and>
                 (\<forall>q. m q = (if q \<in> set (queries tr)
                              then (case ?ok q of Inr c \<Rightarrow> Some c | Inl e \<Rightarrow> None)
                              else None)))"
      unfolding Inr sum.case .
    from all have "sample_count (length (combinations2 seeds)) 1 = Inr (length (queries tr))"
      by (rule conjunct1)
    with sc have len: "length (queries tr) = length (combinations2 seeds)" by simp
    from all obtain mp where mp: "v = Some mp"
      and cells: "\<forall>q. mp q = (if q \<in> set (queries tr)
                              then (case ?ok q of Inr c \<Rightarrow> Some c | Inl e \<Rightarrow> None)
                              else None)"
      by blast
    from len have "card (set (combinations2 seeds)) \<le> card (set (queries tr))"
      using dq combinations2_distinct [OF d] by (simp add: distinct_card)
    with sh2 have eq: "set (queries tr) = set (combinations2 seeds)"
      by (simp add: card_seteq)
    have r: "get_path_costs spl rnd seeds adj_list print_prog 1 = (tr, Inr (Some mp))"
      using run Inr mp by simp
    from cells have cells': "\<forall>q. mp q = (if q \<in> set (combinations2 seeds)
                              then (case ?ok q of Inr c \<Rightarrow> Some c | Inl e \<Rightarrow> None)
                              else None)"
      unfolding eq .
    from r eq cells' show ?thesis by blast
  qed
qed

lemma chain_cost_graph:
  "(from_pandas_edgelist chain_cost :: (string, unit) graph) =
     \<lparr> g_nodes = [''A'', ''B'', ''C''], g_node_attr = (\<lambda>n. Map.empty),
       g_edges = [(''A'', ''B'', [(''cost'', 1)]), (''B'', ''C'', [(''cost'', 2)])] \<rparr>"
  by (simp add: from_pandas_edgelist_def chain_cost_def add_node_def)

lemma chain_weight_graph:
  "(from_pandas_edgelist chain_weight :: (string, unit) graph) =
     \<lparr> g_nodes = [''A'', ''B'', ''C''], g_node_attr = (\<lambda>n. Map.empty),
       g_edges = [(''A'', ''B'', [(''weight'', 1)]), (''B'', ''C'', [(''weight'', 2)])] \<rparr>"
  by (simp add: from_pandas_edgelist_def chain_weight_def add_node_def)

lemma two_islands_graph:
  "(from_pandas_edgelist two_islands :: (string, unit) graph) =
     \<lparr> g_nodes = [''A'', ''B'', ''C'', ''D''], g_node_attr = (\<lambda>n. Map.empty),
       g_edges = [(''A'', ''B'', [(''cost'', 1)]), (''C'', ''D'', [(''cost'', 1)])] \<rparr>"
  by (simp add: from_pandas_edgelist_def two_islands_def add_node_def)

lemma chain_cost_paths:
  "dijkstra_path_length (from_pandas_edgelist chain_cost :: (string, unit) graph) ''A'' ''B'' ''cost'' = Inr 1"
  "dijkstra_path_length (from_pandas_edgelist chain_cost :: (string, unit) graph) ''A'' ''C'' ''cost'' = Inr 3"
  "dijkstra_path_length (from_pandas_edgelist chain_cost :: (string, unit) graph) ''B'' ''C'' ''cost'' = Inr 2"
  "dijkstra_path_length (from_pandas_edgelist chain_cost :: (string, unit) graph) ''Z'' ''A'' ''cost'' = Inl NodeNotFound"
  by (simp_all add: chain_cost_graph dijkstra_path_length_def edge_cost_def relax_def)

lemma chain_weight_paths:
  "dijkstra_path_length (from_pandas_edgelist chain_weight :: (string, unit) graph) ''A'' ''B'' ''cost'' = Inr 1"
  "dijkstra_path_length (from_pandas_edgelist chain_weight :: (string, unit) graph) ''A'' ''C'' ''cost'' = Inr 2"
  "dijkstra_path_length (from_pandas_edgelist chain_weight :: (string, unit) graph) ''B'' ''C'' ''cost'' = Inr 1"
  by (simp_all add: chain_weight_graph dijkstra_path_length_def edge_cost_def relax_def)

lemma two_islands_paths:
  "dijkstra_path_length (from_pandas_edgelist two_islands :: (string, unit) graph) ''A'' ''C'' ''cost'' = Inl NetworkXNoPath"
  "dijkstra_path_length (from_pandas_edgelist two_islands :: (string, unit) graph) ''A'' ''B'' ''cost'' = Inr 1"
  "dijkstra_path_length (from_pandas_edgelist two_islands :: (string, unit) graph) ''C'' ''B'' ''cost'' = Inl NetworkXNoPath"
  by (simp_all add: two_islands_graph dijkstra_path_length_def edge_cost_def relax_def)

subsection \<open>The number of samples\<close>

lemma floor_rat_numeral_div: "\<lfloor>numeral a / numeral b :: rat\<rfloor> = numeral a div numeral b"
  using floor_divide_of_int_eq [of "numeral a" "numeral b", where ?'a = rat] by simp

lemmas binary64_eval =
  round_binary64_def round_positive_def scale_up.simps scale_down.simps round_half_even_def
  pow2_def Let_def floor_rat_numeral_div

lemma float_of_three: "float_of_nat (Suc (Suc (Suc 0))) = Inr 3"
  by (simp add: float_of_nat_def binary64_eval)

lemma sample_count_three_pairs: "sample_count (Suc (Suc (Suc 0))) 1 = Inr (Suc (Suc (Suc 0)))"
  by (simp add: sample_count_def float_of_three py_int_def binary64_eval)

text \<open>
  The product is the rounded one. The float 0.6666666666666666 lies below 2/3, and three
  times it rounds to 2.0: two samples, where the exact product gives one. The float nearest
  to 3/11 times 55 rounds below 15: fourteen samples, where the exact product of 3/11 gives
  fifteen.
\<close>

lemma sample_count_two_thirds:
  "sample_count (Suc (Suc (Suc 0))) (6004799503160661 / 9007199254740992) = Inr 2"
  by (simp add: sample_count_def float_of_three py_int_def binary64_eval)

lemma sample_count_three_elevenths:
  "sample_count 55 (1228254443828317 / 4503599627370496) = Inr 14"
  by (simp add: sample_count_def float_of_nat_def py_int_def binary64_eval)

subsection \<open>Runs on the example tables\<close>

lemma path_loop_numeral:
  "path_loop rnd pp samples sp (numeral k) i combs pc tr
     = path_loop rnd pp samples sp (Suc (pred_numeral k)) i combs pc tr"
  by (simp only: numeral_eq_Suc)

lemma run_two_islands:
  "fst (get_path_costs dijkstra_path_length first_pending [''A'', ''C'', ''B''] two_islands False 1)
     = [BuildGraph, RandRange 3, PathQuery ''A'' ''C'']"
  by (simp add: get_path_costs_def Let_def sample_count_three_pairs first_pending_def
        two_islands_paths resolve_NetworkXNoPath)

lemma run_float_two_thirds:
  "queries (fst (get_path_costs dijkstra_path_length first_pending [''A'', ''B'', ''C'']
                   chain_cost False (6004799503160661 / 9007199254740992)))
     = [(''A'', ''B''), (''A'', ''C'')]"
  by (simp add: get_path_costs_def Let_def sample_count_two_thirds first_pending_def
        chain_cost_paths path_loop_numeral)

subsection \<open>Pairs without a path\<close>

text \<open>
  Claim C2 (fails on the code). A pair whose shortest-path query raises is not skipped.
  The handler \<^verbatim>\<open>except NetworkXNoPath:\<close> names an exception class that the module never
  imports, so evaluating the handler raises \<^verbatim>\<open>NameError\<close>: whenever a queried pair has
  no path, the call ends with that error, returns no mapping and processes no further pair.
\<close>

theorem get_path_costs_no_path_raises:
  assumes "get_path_costs spl rnd seeds adj_list print_prog p = (tr, r)"
    and "(home, dest) \<in> set (queries tr)"
    and "spl (from_pandas_edgelist adj_list) home dest ''cost'' = Inl NetworkXNoPath"
  shows "r = Inl (NameError ''NetworkXNoPath'')"
proof (cases "0 < p \<and> p \<le> 1")
  case False
  then have "tr = [Print ''Sampled proportion must be in (0, 1]'']"
    using assms(1) by (simp add: get_path_costs_def)
  with assms(2) show ?thesis by simp
next
  case True
  then have p: "0 < p" "p \<le> 1" by simp_all
  let ?ok = "\<lambda>q. spl (from_pandas_edgelist adj_list) (fst q) (snd q) ''cost''"
  note sh3 = conjunct2 [OF conjunct2 [OF get_path_costs_shape [OF p assms(1)]]]
  show ?thesis
  proof (cases r)
    case (Inl e)
    from sh3 have alt:
      "(e = NameError ''NetworkXNoPath'' \<and> queries tr \<noteq> [] \<and>
          (\<exists>e'. ?ok (last (queries tr)) = Inl e') \<and>
          (\<forall>q \<in> set (butlast (queries tr)). \<exists>c. ?ok q = Inr c)) \<or>
       (e = ValueError \<and>
          (\<exists>n. sample_count (length (combinations2 seeds)) p = Inr n \<and>
               length (combinations2 seeds) < n) \<and>
          (\<forall>q \<in> set (queries tr). \<exists>c. ?ok q = Inr c)) \<or>
       (sample_count (length (combinations2 seeds)) p = Inl e \<and> queries tr = [])"
      unfolding Inl sum.case .
    then show ?thesis
    proof (elim disjE)
      assume "e = NameError ''NetworkXNoPath'' \<and> queries tr \<noteq> [] \<and>
          (\<exists>e'. ?ok (last (queries tr)) = Inl e') \<and>
          (\<forall>q \<in> set (butlast (queries tr)). \<exists>c. ?ok q = Inr c)"
      with Inl show ?thesis by simp
    next
      assume "e = ValueError \<and>
          (\<exists>n. sample_count (length (combinations2 seeds)) p = Inr n \<and>
               length (combinations2 seeds) < n) \<and>
          (\<forall>q \<in> set (queries tr). \<exists>c. ?ok q = Inr c)"
      then have "\<forall>q \<in> set (queries tr). \<exists>c. ?ok q = Inr c" by (elim conjE)
      with assms(2) obtain c where "?ok (home, dest) = Inr c" by blast
      with assms(3) show ?thesis by simp
    next
      assume "sample_count (length (combinations2 seeds)) p = Inl e \<and> queries tr = []"
      with assms(2) show ?thesis by simp
    qed
  next
    case (Inr v)
    from sh3 have "\<forall>q \<in> set (queries tr). \<exists>c. ?ok q = Inr c"
      unfolding Inr sum.case by blast
    with assms(2) obtain c where "?ok (home, dest) = Inr c" by blast
    with assms(3) show ?thesis by simp
  qed
qed

theorem get_path_costs_no_path_raises_witness:
  "(''A'', ''C'') \<in> set (queries (fst (get_path_costs dijkstra_path_length first_pending
                                         [''A'', ''C'', ''B''] two_islands False 1))) \<and>
   dijkstra_path_length (from_pandas_edgelist two_islands :: (string, unit) graph)
     ''A'' ''C'' ''cost'' = Inl NetworkXNoPath \<and>
   snd (get_path_costs dijkstra_path_length first_pending [''A'', ''C'', ''B''] two_islands False 1)
     = Inl (NameError ''NetworkXNoPath'')"
proof -
  let ?run = "get_path_costs dijkstra_path_length first_pending
                [''A'', ''C'', ''B''] two_islands False 1"
  have run: "?run = (fst ?run, snd ?run)" by simp
  have q: "(''A'', ''C'') \<in> set (queries (fst ?run))"
    by (simp add: run_two_islands)
  note np = two_islands_paths(1)
  have r: "snd ?run = Inl (NameError ''NetworkXNoPath'')"
    using run q np by (rule get_path_costs_no_path_raises)
  show ?thesis
    by (rule conjI [OF q conjI [OF np r]])
qed

subsection \<open>The chain example\<close>

text \<open>
  Claim C3 (fails on the code). The graph stores the third column under the column's own
  label, but the shortest-path query always reads the attribute \<^verbatim>\<open>cost\<close>. For the rows
  (A, B, 1.0), (B, C, 2.0), the seeds A, B, C and the proportion 1, whatever the random
  draws: when the third column is labelled \<^verbatim>\<open>weight\<close> every edge counts 1 and the costs
  are 1, 2 and 1; only when it is labelled \<^verbatim>\<open>cost\<close> are they 1, 3 and 2.
\<close>

theorem get_path_costs_chain_example:
  "(\<exists>tr m. get_path_costs dijkstra_path_length rnd [''A'', ''B'', ''C''] chain_weight print_prog 1
              = (tr, Inr (Some m)) \<and>
           m (''A'', ''B'') = Some 1 \<and> m (''A'', ''C'') = Some 2 \<and> m (''B'', ''C'') = Some 1) \<and>
   (\<exists>tr m. get_path_costs dijkstra_path_length rnd [''A'', ''B'', ''C''] chain_cost print_prog 1
              = (tr, Inr (Some m)) \<and>
           m (''A'', ''B'') = Some 1 \<and> m (''A'', ''C'') = Some 3 \<and> m (''B'', ''C'') = Some 2)"
proof -
  have d: "distinct [''A'', ''B'', ''C'']" by simp
  have sc: "sample_count (length (combinations2 [''A'', ''B'', ''C''])) 1
              = Inr (length (combinations2 [''A'', ''B'', ''C'']))"
    by (simp add: sample_count_three_pairs)
  have okw: "\<forall>q \<in> set (combinations2 [''A'', ''B'', ''C'']).
      \<exists>c. dijkstra_path_length (from_pandas_edgelist chain_weight :: (string, unit) graph) (fst q) (snd q) ''cost'' = Inr c"
    by (simp add: chain_weight_paths)
  have okc: "\<forall>q \<in> set (combinations2 [''A'', ''B'', ''C'']).
      \<exists>c. dijkstra_path_length (from_pandas_edgelist chain_cost :: (string, unit) graph) (fst q) (snd q) ''cost'' = Inr c"
    by (simp add: chain_cost_paths)
  from get_path_costs_all_pairs [where spl = dijkstra_path_length and adj_list = chain_weight and rnd = rnd and print_prog = print_prog, OF d sc okw]
  obtain tr m where w: "get_path_costs dijkstra_path_length rnd [''A'', ''B'', ''C''] chain_weight print_prog 1
              = (tr, Inr (Some m))"
    and mw: "\<And>q. m q = (if q \<in> set (combinations2 [''A'', ''B'', ''C''])
                        then (case dijkstra_path_length (from_pandas_edgelist chain_weight :: (string, unit) graph) (fst q) (snd q) ''cost'' of
                                Inr c \<Rightarrow> Some c | Inl e \<Rightarrow> None)
                        else None)"
    by blast
  have w1: "m (''A'', ''B'') = Some 1" using mw [of "(''A'', ''B'')"] by (simp add: chain_weight_paths)
  have w2: "m (''A'', ''C'') = Some 2" using mw [of "(''A'', ''C'')"] by (simp add: chain_weight_paths)
  have w3: "m (''B'', ''C'') = Some 1" using mw [of "(''B'', ''C'')"] by (simp add: chain_weight_paths)
  from get_path_costs_all_pairs [where spl = dijkstra_path_length and adj_list = chain_cost and rnd = rnd and print_prog = print_prog, OF d sc okc]
  obtain tr' m' where c: "get_path_costs dijkstra_path_length rnd [''A'', ''B'', ''C''] chain_cost print_prog 1
              = (tr', Inr (Some m'))"
    and mc: "\<And>q. m' q = (if q \<in> set (combinations2 [''A'', ''B'', ''C''])
                        then (case dijkstra_path_length (from_pandas_edgelist chain_cost :: (string, unit) graph) (fst q) (snd q) ''cost'' of
                                Inr c \<Rightarrow> Some c | Inl e \<Rightarrow> None)
                        else None)"
    by blast
  have c1: "m' (''A'', ''B'') = Some 1" using mc [of "(''A'', ''B'')"] by (simp add: chain_cost_paths)
  have c2: "m' (''A'', ''C'') = Some 3" using mc [of "(''A'', ''C'')"] by (simp add: chain_cost_paths)
  have c3: "m' (''B'', ''C'') = Some 2" using mc [of "(''B'', ''C'')"] by (simp add: chain_cost_paths)
  have a: "\<exists>tr m. get_path_costs dijkstra_path_length rnd [''A'', ''B'', ''C''] chain_weight print_prog 1
              = (tr, Inr (Some m)) \<and>
           m (''A'', ''B'') = Some 1 \<and> m (''A'', ''C'') = Some 2 \<and> m (''B'', ''C'') = Some 1"
    using w w1 w2 w3 by (intro exI [of _ tr] exI [of _ m] conjI)
  have b: "\<exists>tr m. get_path_costs dijkstra_path_length rnd [''A'', ''B'', ''C''] chain_cost print_prog 1
              = (tr, Inr (Some m)) \<and>
           m (''A'', ''B'') = Some 1 \<and> m (''A'', ''C'') = Some 3 \<and> m (''B'', ''C'') = Some 2"
    using c c1 c2 c3 by (intro exI [of _ tr'] exI [of _ m'] conjI)
  from a b show ?thesis by (rule conjI)
qed

subsection \<open>Number of sampled pairs\<close>

text \<open>
  Claim C7 (fails on the code). The seeds A, C and B are distinct nodes of the graph with
  the edges A - B and C - D, and the proportion is 1, so the three pairs of seeds are due.
  Two of them have no path. Whatever the random draws, the first such pair that is queried
  ends the call with the \<^verbatim>\<open>NameError\<close> of the handler, after at most two queries: the
  three pairs are never all attempted.
\<close>

theorem get_path_costs_count_cut_short:
  "distinct [''A'', ''C'', ''B''] \<and>
   set [''A'', ''C'', ''B''] \<subseteq> set (g_nodes (from_pandas_edgelist two_islands :: (string, unit) graph)) \<and>
   sample_count (length (combinations2 [''A'', ''C'', ''B''])) 1 = Inr 3 \<and>
   nat \<lfloor>(1::rat) * of_nat (length [''A'', ''C'', ''B''] choose 2)\<rfloor> = 3 \<and>
   length (queries (fst (get_path_costs dijkstra_path_length rnd [''A'', ''C'', ''B'']
                           two_islands print_prog 1))) < 3 \<and>
   snd (get_path_costs dijkstra_path_length rnd [''A'', ''C'', ''B''] two_islands print_prog 1)
     = Inl (NameError ''NetworkXNoPath'')"
proof -
  let ?G = "from_pandas_edgelist two_islands :: (string, unit) graph"
  let ?ok = "\<lambda>q. dijkstra_path_length ?G (fst q) (snd q) ''cost''"
  let ?seeds = "[''A'', ''C'', ''B'']"
  let ?run = "get_path_costs dijkstra_path_length rnd ?seeds two_islands print_prog 1"
  have d: "distinct ?seeds" by simp
  have nodes: "set ?seeds \<subseteq> set (g_nodes ?G)" by (simp add: two_islands_graph)
  have combs: "combinations2 ?seeds = [(''A'', ''C''), (''A'', ''B''), (''C'', ''B'')]" by simp
  have sc: "sample_count (length (combinations2 ?seeds)) 1 = Inr 3"
    by (simp add: sample_count_three_pairs)
  have fl: "nat \<lfloor>(1::rat) * of_nat (length ?seeds choose 2)\<rfloor> = 3"
    by (simp add: binomial_Suc_Suc numeral_2_eq_2)
  obtain tr r where run: "?run = (tr, r)" by (cases ?run) blast
  have p: "(0::rat) < 1" "(1::rat) \<le> 1" by simp_all
  note sh = get_path_costs_shape [OF p run]
  have dq: "distinct (queries tr)" using conjunct1 [OF sh] d by (rule mp)
  have sq: "set (queries tr) \<subseteq> {(''A'', ''C''), (''A'', ''B''), (''C'', ''B'')}"
    using conjunct1 [OF conjunct2 [OF sh]] by (simp only: combs) simp
  note sh3 = conjunct2 [OF conjunct2 [OF sh]]
  have answered: "q = (''A'', ''B'')"
    if "q \<in> set (queries tr)" and "\<exists>c. ?ok q = Inr c" for q
  proof -
    from that(1) sq have "q = (''A'', ''C'') \<or> q = (''A'', ''B'') \<or> q = (''C'', ''B'')" by auto
    with that(2) show ?thesis by (auto simp add: two_islands_paths)
  qed
  have res: "r = Inl (NameError ''NetworkXNoPath'') \<and> length (queries tr) < 3"
  proof (cases r)
    case (Inr v)
    from sh3 have all: "sample_count (length (combinations2 ?seeds)) 1 = Inr (length (queries tr)) \<and>
              (\<forall>q \<in> set (queries tr). \<exists>c. ?ok q = Inr c) \<and>
              (\<exists>m. v = Some m \<and>
                 (\<forall>q. m q = (if q \<in> set (queries tr)
                              then (case ?ok q of Inr c \<Rightarrow> Some c | Inl e \<Rightarrow> None)
                              else None)))"
      unfolding Inr sum.case .
    then have len: "length (queries tr) = 3" using sc by simp
    from all have "\<forall>q \<in> set (queries tr). q = (''A'', ''B'')"
      using answered by blast
    then have "set (queries tr) \<subseteq> {(''A'', ''B'')}" by auto
    then have "card (set (queries tr)) \<le> card {(''A'', ''B'')}"
      by (intro card_mono) simp_all
    then have "length (queries tr) \<le> 1" using dq by (simp add: distinct_card)
    with len show ?thesis by simp
  next
    case (Inl e)
    from sh3 have alt:
      "(e = NameError ''NetworkXNoPath'' \<and> queries tr \<noteq> [] \<and>
          (\<exists>e'. ?ok (last (queries tr)) = Inl e') \<and>
          (\<forall>q \<in> set (butlast (queries tr)). \<exists>c. ?ok q = Inr c)) \<or>
       (e = ValueError \<and>
          (\<exists>n. sample_count (length (combinations2 ?seeds)) 1 = Inr n \<and>
               length (combinations2 ?seeds) < n) \<and>
          (\<forall>q \<in> set (queries tr). \<exists>c. ?ok q = Inr c)) \<or>
       (sample_count (length (combinations2 ?seeds)) 1 = Inl e \<and> queries tr = [])"
      unfolding Inl sum.case .
    then show ?thesis
    proof (elim disjE)
      assume h: "e = NameError ''NetworkXNoPath'' \<and> queries tr \<noteq> [] \<and>
          (\<exists>e'. ?ok (last (queries tr)) = Inl e') \<and>
          (\<forall>q \<in> set (butlast (queries tr)). \<exists>c. ?ok q = Inr c)"
      then have ne: "queries tr \<noteq> []"
        and bl: "\<forall>q \<in> set (butlast (queries tr)). \<exists>c. ?ok q = Inr c"
        by simp_all
      have "q = (''A'', ''B'')" if "q \<in> set (butlast (queries tr))" for q
        using that bl answered [of q] in_set_butlastD [of q "queries tr"] by blast
      then have "set (butlast (queries tr)) \<subseteq> {(''A'', ''B'')}" by auto
      then have "card (set (butlast (queries tr))) \<le> card {(''A'', ''B'')}"
        by (intro card_mono) simp_all
      moreover have "distinct (butlast (queries tr))" using dq by (rule distinct_butlast)
      ultimately have "length (butlast (queries tr)) \<le> 1" by (simp add: distinct_card)
      then have "length (queries tr) < 3" using ne by simp
      with h Inl show ?thesis by simp
    next
      assume "e = ValueError \<and>
          (\<exists>n. sample_count (length (combinations2 ?seeds)) 1 = Inr n \<and>
               length (combinations2 ?seeds) < n) \<and>
          (\<forall>q \<in> set (queries tr). \<exists>c. ?ok q = Inr c)"
      then obtain n where "sample_count (length (combinations2 ?seeds)) 1 = Inr n"
        and "length (combinations2 ?seeds) < n" by blast
      with sc show ?thesis by simp
    next
      assume "sample_count (length (combinations2 ?seeds)) 1 = Inl e \<and> queries tr = []"
      with sc show ?thesis by simp
    qed
  qed
  have r1: "length (queries (fst ?run)) < 3" using res run by simp
  have r2: "snd ?run = Inl (NameError ''NetworkXNoPath'')" using res run by simp
  show ?thesis
    by (rule conjI [OF d conjI [OF nodes conjI [OF sc conjI [OF fl conjI [OF r1 r2]]]]])
qed

end
